theory Spec2Isabelle
  imports Main
begin

section \<open>The mrbc driver (mrbgems/mruby-bin-mrbc/tools/mrbc/mrbc.c)\<close>

text \<open>
  A shallow embedding of the compiler driver. A C string is modelled by the list of its
  characters before the terminating NUL, so a well-formed C string holds no NUL. Memory
  that the driver allocates and fills itself is modelled cell by cell, so that a read of a
  byte nobody wrote, or a write past the end of a buffer, shows up as a value of the model.
\<close>

subsection \<open>C strings and character buffers\<close>

definition NUL :: char where
  "NUL = CHR 0x00"

text \<open>A buffer cell is \<open>None\<close> while its content is indeterminate (fresh from the allocator).\<close>

type_synonym buffer = "char option list"

definition mrb_malloc :: "nat \<Rightarrow> buffer" where
  "mrb_malloc n = replicate n None"

text \<open>
  \<open>strncpy (dst + off) src n\<close>: exactly \<open>n\<close> cells are written, the characters of
  \<open>src\<close> first and NUL padding after them when \<open>src\<close> is shorter than \<open>n\<close>. Writing past
  the end of the buffer is undefined and gives \<open>None\<close>.
\<close>

definition strncpy :: "buffer \<Rightarrow> nat \<Rightarrow> string \<Rightarrow> nat \<Rightarrow> buffer option" where
  "strncpy dst off src n =
     (if off + n \<le> length dst
      then Some (take off dst @ map Some (take n (src @ replicate n NUL)) @ drop (off + n) dst)
      else None)"

text \<open>
  Reading a buffer back as a C string: the characters up to the first NUL. Meeting an
  indeterminate cell, or the end of the buffer, before a NUL is undefined (\<open>None\<close>).
\<close>

fun c_str :: "buffer \<Rightarrow> string option" where
  "c_str [] = None"
| "c_str (None # cs) = None"
| "c_str (Some c # cs) =
     (if c = NUL then Some [] else (case c_str cs of None \<Rightarrow> None | Some s \<Rightarrow> Some (c # s)))"

text \<open>\<open>strrchr s c\<close>: the offset of the last occurrence of \<open>c\<close> in \<open>s\<close>, if there is one.\<close>

fun strrchr :: "string \<Rightarrow> char \<Rightarrow> nat option" where
  "strrchr [] c = None"
| "strrchr (x # xs) c =
     (case strrchr xs c of
        Some k \<Rightarrow> Some (Suc k)
      | None \<Rightarrow> (if x = c then Some 0 else None))"

text \<open>\<open>s[k]\<close> for \<open>k\<close> up to the terminator, which sits at offset \<open>length s\<close>.\<close>

definition char_at :: "string \<Rightarrow> nat \<Rightarrow> char" where
  "char_at s k = (if k < length s then s ! k else NUL)"

definition RITEBIN_EXT :: string where
  "RITEBIN_EXT = ''.mrb''"

definition C_EXT :: string where
  "C_EXT = ''.c''"

definition C_HEAD_EXT :: string where
  "C_HEAD_EXT = ''.h''"

subsection \<open>The filename deriver\<close>

text \<open>
  \<open>get_outfilename\<close> (lines 64-90). \<open>ilen\<close> starts as the length of the input and becomes
  the offset of its last dot when the extension is non-empty and a dot exists; \<open>flen\<close> is the
  input's full length plus the extension's. The first \<open>strncpy\<close> copies \<open>ilen + 1\<close>
  characters of the input, the second (only when a dot was found) writes the extension and
  its terminator at offset \<open>ilen\<close>. The result is the C string the returned buffer holds.
\<close>

definition get_outfilename :: "string \<Rightarrow> string \<Rightarrow> string option" where
  "get_outfilename infile ext =
     (let p = (if ext \<noteq> [] then strrchr infile (CHR ''.'') else None);
          ilen = (case p of Some k \<Rightarrow> k | None \<Rightarrow> length infile);
          flen = (if ext \<noteq> [] then length infile + length ext else length infile);
          outfile = mrb_malloc (flen + 1)
      in case strncpy outfile 0 infile (ilen + 1) of
           None \<Rightarrow> None
         | Some b1 \<Rightarrow>
             (case p of
                None \<Rightarrow> c_str b1
              | Some k \<Rightarrow>
                  (case strncpy b1 ilen ext (length ext + 1) of
                     None \<Rightarrow> None
                   | Some b2 \<Rightarrow> c_str b2)))"

subsection \<open>The configuration record and what the driver lets the outside see\<close>

text \<open>
  Modelled from the spec: the \<open>MRB_DUMP_*\<close> masks come from \<open>mruby/dump.h\<close>, which is not
  part of the sources at hand. The spec lists the five output-format flags of the bitset
  (struct-form, header-emission, octal-encoding, static-storage, debug-info); the 5-bit
  field \<open>flags\<close> is modelled as the set of the flags that are on, so \<open>flags |= F\<close> is
  \<open>insert F\<close> and \<open>flags & F\<close> is membership.
\<close>

datatype dump_flag =
    MRB_DUMP_DEBUG_INFO
  | MRB_DUMP_STATIC
  | MRB_DUMP_STRUCT
  | MRB_DUMP_HEADER
  | MRB_DUMP_OCTAL

text \<open>
  \<open>struct mrbc_args\<close> (lines 18-32). \<open>prog\<close>, \<open>outfile\<close> and \<open>initname\<close> are pointers,
  \<open>None\<close> when NULL. \<open>argc\<close> and \<open>idx\<close> are C ints, \<open>line_size\<close> is an 8-bit unsigned
  field held as its value in 0..255.
\<close>

record mrbc_args =
  prog :: "string option"
  outfile :: "string option"
  initname :: "string option"
  argv :: "string list"
  argc :: int
  idx :: int
  line_size :: int
  check_syntax :: bool
  verbose :: bool
  remove_lv :: bool
  no_ext_ops :: bool
  no_optimize :: bool
  flags :: "dump_flag set"

text \<open>\<open>args_zero\<close> (line 95): every member zero, NULL or false.\<close>

definition args_zero :: mrbc_args where
  "args_zero =
     \<lparr> prog = None, outfile = None, initname = None, argv = [], argc = 0, idx = 0,
       line_size = 0, check_syntax = False, verbose = False, remove_lv = False,
       no_ext_ops = False, no_optimize = False, flags = {} \<rparr>"

text \<open>
  Modelled from the spec: the status codes of the dump codecs (\<open>mruby/dump.h\<close>, absent).
  The driver only compares a status with \<open>MRB_DUMP_OK\<close> and with
  \<open>MRB_DUMP_INVALID_ARGUMENT\<close>; every other failure code is \<open>MRB_DUMP_FAILED\<close> of its number.
\<close>

datatype dump_status =
    MRB_DUMP_OK
  | MRB_DUMP_INVALID_ARGUMENT
  | MRB_DUMP_FAILED int

datatype out_stream = Stdout | Out_file string

datatype in_stream = Stdin | In_file string

text \<open>
  One call of a dump codec, with the arguments the driver passes: the flags, the stream,
  the symbol name and (for the C-variable form) the line width.
\<close>

datatype codec_call =
    Dump_cheader "dump_flag set" out_stream string
  | Dump_cstruct "dump_flag set" out_stream string
  | Dump_cvar "dump_flag set" out_stream string int
  | Dump_binary "dump_flag set" out_stream

text \<open>The lines the driver writes to the error stream, each with the values it prints.\<close>

datatype diagnostic =
    Invalid_mrb_state
  | Outfile_already_specified string
  | Function_name_not_specified
  | Option_e_no_longer_needed
  | Line_size_out_of_bounds "int option"
  | Cannot_open_program_file string
  | No_program_file_given
  | Output_file_should_be_specified
  | Cannot_open_output_file string
  | Output_file_is_required
  | Invalid_C_symbol_name string
  | Option_s_requires_B
  | Error_in_mrb_dump string dump_status

text \<open>
  Everything the driver does that can be observed from outside, in the order it does it.
  \<open>Fopen_read\<close> and \<open>Fopen_write\<close> carry the name and whether the open succeeded; a
  successful \<open>Fopen_write\<close> creates or truncates the file.
\<close>

datatype event =
    Show_version
  | Show_copyright
  | Usage
  | Stderr diagnostic
  | Syntax_OK string
  | Fopen_read string bool
  | Fopen_write string bool
  | Fclose_in in_stream
  | Fclose_out out_stream
  | Remove_lv
  | Codec codec_call

text \<open>
  \<open>dump_file\<close> compares the pointer \<open>strrchr\<close> returns with the pointer \<open>C_HEAD_EXT\<close>
  (line 292), so the model has to say where a string lives: a pointer is the object it
  points into and an offset. String literals and blocks from the allocator are distinct
  objects.
\<close>

datatype storage = String_literal string | Heap_block nat

datatype char_ptr = Ptr storage nat

fun ptr_add :: "char_ptr \<Rightarrow> nat \<Rightarrow> char_ptr" where
  "ptr_add (Ptr obj off) k = Ptr obj (off + k)"

definition C_HEAD_EXT_ptr :: char_ptr where
  "C_HEAD_EXT_ptr = Ptr (String_literal C_HEAD_EXT) 0"

text \<open>
  What the driver cannot decide by itself: whether the interpreter state can be created,
  how \<open>mrb_read_int\<close> reads a number (\<open>None\<close> when it returns FALSE and leaves its output
  untouched), which files can be opened, how often the parser asks the continuation hook
  for more input, whether the parser and compiler produce a program (rather than the undef
  sentinel), and the status each codec call returns. \<open>unassigned_outfilename\<close> is what a
  read of \<open>main\<close>'s local \<open>outfilename\<close> yields on a path that never assigned it: some
  pointer and the string it happens to point to, or \<open>None\<close> when using it traps.
\<close>

record world =
  mrb_open_ok :: bool
  mrb_read_int :: "string \<Rightarrow> int option"
  readable :: "string \<Rightarrow> bool"
  writable :: "string \<Rightarrow> bool"
  hook_polls :: nat
  load_ok :: bool
  codec_status :: "codec_call \<Rightarrow> dump_status"
  unassigned_outfilename :: "(char_ptr \<times> string) option"

subsection \<open>The option parser\<close>

text \<open>
  The body of the \<open>for\<close> loop of \<open>parse_args\<close> (lines 104-213) for the element at index
  \<open>i\<close>. \<open>Next j\<close> is a \<open>break\<close> out of the \<open>switch\<close> with the loop variable at \<open>j\<close> (the loop
  then increments it); \<open>Stop (Return n)\<close> is a \<open>return n\<close> (also the \<open>break\<close> out of the
  loop at the first element that does not start with a dash, which falls to \<open>return i\<close>);
  \<open>Stop Exit_success\<close> is \<open>exit(EXIT_SUCCESS)\<close>. \<open>argv[i+1]\<close> is non-NULL exactly when
  \<open>i + 1 < argc\<close>. \<open>long_option\<close> is the \<open>case '-'\<close> of the switch (lines 161-206),
  \<open>option_step\<close> the whole body; \<open>rd\<close> stands for \<open>mrb_read_int\<close>, \<open>out\<close> for what has
  been printed so far. The line-size diagnostic (line 200) prints the \<open>mrb_int\<close> with
  \<open>%d\<close>, which takes an int: what appears is the low 32 bits read as a signed number, and
  nothing definite (\<open>None\<close>) when \<open>mrb_read_int\<close> failed and left the variable unassigned.
\<close>

datatype parse_result =
    Return int mrbc_args "event list"
  | Exit_success mrbc_args "event list"

datatype parse_step =
    Next nat mrbc_args "event list"
  | Stop parse_result

definition long_option :: "(string \<Rightarrow> int option) \<Rightarrow> string list \<Rightarrow> nat \<Rightarrow> mrbc_args \<Rightarrow> event list \<Rightarrow> parse_step" where
  "long_option rd av i args out =
     (let a = av ! i; name = drop 2 a in
      if char_at a 1 = CHR 0x0A then Stop (Return (int i) args out)
      else if name = ''version'' then Stop (Exit_success args (out @ [Show_version]))
      else if name = ''verbose'' then Next i (args\<lparr>verbose := True\<rparr>) out
      else if name = ''copyright'' then Stop (Exit_success args (out @ [Show_copyright]))
      else if name = ''remove-lv'' then Next i (args\<lparr>remove_lv := True\<rparr>) out
      else if name = ''no-ext-ops'' then Next i (args\<lparr>no_ext_ops := True\<rparr>) out
      else if name = ''no-optimize'' then Next i (args\<lparr>no_optimize := True\<rparr>) out
      else if name = ''line-size'' then
        (case (if char_at a 2 = NUL \<and> i + 1 < length av
               then (i + 1, rd (av ! (i + 1)))
               else (i, rd name)) of
           (j, None) \<Rightarrow> Stop (Return (- 1) args (out @ [Stderr (Line_size_out_of_bounds None)]))
         | (j, Some v) \<Rightarrow>
             if v < 1 \<or> v > 255
             then Stop (Return (- 1) args
                          (out @ [Stderr (Line_size_out_of_bounds (Some (signed_take_bit 31 v)))]))
             else Next j (args\<lparr>line_size := v mod 256\<rparr>) out)
      else Stop (Return (- 1) args out))"

definition option_step :: "(string \<Rightarrow> int option) \<Rightarrow> string list \<Rightarrow> nat \<Rightarrow> mrbc_args \<Rightarrow> event list \<Rightarrow> parse_step" where
  "option_step rd av i args out =
     (let a = av ! i; c = char_at a 1 in
      if char_at a 0 \<noteq> CHR ''-'' then Stop (Return (int i) args out)
      else if c = CHR ''o'' then
        (case outfile args of
           Some f \<Rightarrow> Stop (Return (- 1) args (out @ [Stderr (Outfile_already_specified f)]))
         | None \<Rightarrow>
             if char_at a 2 = NUL \<and> i + 1 < length av
             then Next (i + 1) (args\<lparr>outfile := Some (av ! (i + 1))\<rparr>) out
             else Next i (args\<lparr>outfile := Some (drop 2 a)\<rparr>) out)
      else if c = CHR ''S'' then Next i (args\<lparr>flags := insert MRB_DUMP_STRUCT (flags args)\<rparr>) out
      else if c = CHR ''B'' then
        (case (if char_at a 2 = NUL \<and> i + 1 < length av
               then (i + 1, av ! (i + 1))
               else (i, drop 2 a)) of
           (j, name) \<Rightarrow>
             if name = []
             then Stop (Return (- 1) (args\<lparr>initname := Some name\<rparr>)
                          (out @ [Stderr Function_name_not_specified]))
             else Next j (args\<lparr>initname := Some name\<rparr>) out)
      else if c = CHR ''H'' then Next i (args\<lparr>flags := insert MRB_DUMP_HEADER (flags args)\<rparr>) out
      else if c = CHR ''8'' then Next i (args\<lparr>flags := insert MRB_DUMP_OCTAL (flags args)\<rparr>) out
      else if c = CHR ''c'' then Next i (args\<lparr>check_syntax := True\<rparr>) out
      else if c = CHR ''v'' then
        Next i (args\<lparr>verbose := True\<rparr>) (if verbose args then out else out @ [Show_version])
      else if c = CHR ''g'' then Next i (args\<lparr>flags := insert MRB_DUMP_DEBUG_INFO (flags args)\<rparr>) out
      else if c = CHR ''s'' then Next i (args\<lparr>flags := insert MRB_DUMP_STATIC (flags args)\<rparr>) out
      else if c = CHR ''E'' \<or> c = CHR ''e'' then Next i args (out @ [Stderr Option_e_no_longer_needed])
      else if c = CHR ''h'' then Stop (Return (- 1) args out)
      else if c = CHR ''-'' then long_option rd av i args out
      else Stop (Return (int i) args out))"

text \<open>
  A step never moves the loop variable backwards: it stays, or moves on by the one
  element an option took as its value.
\<close>

lemma long_option_Next:
  "long_option rd av i args out = Next j args' out' \<Longrightarrow> j = i \<or> j = i + 1"
  by (simp add: long_option_def Let_def split: if_splits option.splits prod.splits)

lemma option_step_Next:
  "option_step rd av i args out = Next j args' out' \<Longrightarrow> j = i \<or> j = i + 1"
  by (auto simp: option_step_def Let_def split: if_splits option.splits prod.splits
           dest: long_option_Next)

text \<open>The loop \<open>for (i = 1; i < argc; i++)\<close> and the final \<open>return i\<close> (lines 103-215).\<close>

function parse_loop :: "(string \<Rightarrow> int option) \<Rightarrow> string list \<Rightarrow> nat \<Rightarrow> mrbc_args \<Rightarrow> event list \<Rightarrow> parse_result" where
  "parse_loop rd av i args out =
     (if i < length av
      then (case option_step rd av i args out of
              Next j args' out' \<Rightarrow> parse_loop rd av (Suc j) args' out'
            | Stop r \<Rightarrow> r)
      else Return (int i) args out)"
  by pat_completeness auto
termination
proof (relation "measure (\<lambda>(rd, av, i, args, out). length av - i)")
  show "wf (measure (\<lambda>(rd, av, i, args, out). length av - i))"
    by simp
next
  fix rd :: "string \<Rightarrow> int option" and av :: "string list" and i :: nat and args :: mrbc_args
    and out :: "event list" and j :: nat and args' :: mrbc_args and out' :: "event list"
  assume "i < length av" and "option_step rd av i args out = Next j args' out'"
  then show "((rd, av, Suc j, args', out'), (rd, av, i, args, out))
               \<in> measure (\<lambda>(rd, av, i, args, out). length av - i)"
    using option_step_Next [of rd av i args out j args' out'] by auto
qed

text \<open>
  \<open>parse_args\<close> (lines 92-216): the record the caller passes is overwritten as a whole by
  \<open>args_zero\<close> (line 98) before \<open>argc\<close>, \<open>argv\<close> and \<open>prog\<close> are set; \<open>argv[0]\<close> is NULL
  when the vector is empty.
\<close>

definition parse_args :: "(string \<Rightarrow> int option) \<Rightarrow> string list \<Rightarrow> mrbc_args \<Rightarrow> parse_result" where
  "parse_args rd av args =
     parse_loop rd av 1
       (args_zero\<lparr>argc := int (length av), argv := av,
                  prog := (case av of [] \<Rightarrow> None | p # ps \<Rightarrow> Some p)\<rparr>) []"

subsection \<open>The chained source loader\<close>

text \<open>
  \<open>partial_hook\<close> (lines 218-238) on the parser's current stream \<open>p->f\<close> and the
  configuration: the current stream is closed, then either the cursor has reached the count
  (\<open>p->f = NULL\<close>, result -1) or the next named file is taken, the cursor advanced, and the
  file opened (result 0, or -1 with a diagnostic when it cannot be opened).
\<close>

definition partial_hook :: "world \<Rightarrow> in_stream option \<times> mrbc_args \<Rightarrow> int \<times> (in_stream option \<times> mrbc_args) \<times> event list" where
  "partial_hook w st =
     (let args = snd st;
          closing = (case fst st of Some f \<Rightarrow> [Fclose_in f] | None \<Rightarrow> [])
      in if idx args \<ge> argc args then (- 1, (None, args), closing)
         else
           (let fn = argv args ! nat (idx args);
                args' = args\<lparr>idx := idx args + 1\<rparr>
            in if readable w fn
               then (0, (Some (In_file fn), args'), closing @ [Fopen_read fn True])
               else (- 1, (None, args'),
                     closing @ [Fopen_read fn False, Stderr (Cannot_open_program_file fn)])))"

text \<open>
  Modelled from the spec: the parser (\<open>mrb_load_file_cxt\<close>, external) invokes the hook
  whenever its current input stream is exhausted. How often that happens in a run is the
  world's \<open>hook_polls\<close>; the hook may be asked again after it has signalled the end.
\<close>

fun poll_hook :: "world \<Rightarrow> nat \<Rightarrow> in_stream option \<times> mrbc_args \<Rightarrow> (in_stream option \<times> mrbc_args) \<times> event list" where
  "poll_hook w 0 st = (st, [])"
| "poll_hook w (Suc k) st =
     (case partial_hook w st of
        (r, st', ev) \<Rightarrow> (case poll_hook w k st' of (st'', ev') \<Rightarrow> (st'', ev @ ev')))"

datatype load_result = Loaded | Nil_value

text \<open>
  \<open>load_file\<close> (lines 240-279). The first input is \<open>argv[idx]\<close>, standard input when it
  is exactly a dash. The cursor is advanced once; when inputs remain the hook is installed
  and the loader leaves closing to it.
\<close>

definition load_file :: "world \<Rightarrow> mrbc_args \<Rightarrow> load_result \<times> mrbc_args \<times> event list" where
  "load_file w args =
     (let input = argv args ! nat (idx args);
          is_stdin = (char_at input 0 = CHR ''-'' \<and> char_at input 1 = NUL)
      in if \<not> is_stdin \<and> \<not> readable w input
         then (Nil_value, args, [Fopen_read input False, Stderr (Cannot_open_program_file input)])
         else
           (let infile = (if is_stdin then Stdin else In_file input);
                opened = (if is_stdin then [] else [Fopen_read input True]);
                args1 = args\<lparr>idx := idx args + 1\<rparr>;
                chained = (idx args1 < argc args1);
                parsed = (if chained then poll_hook w (hook_polls w) (Some infile, args1)
                          else ((Some infile, args1), []));
                closing = (if \<not> is_stdin \<and> \<not> chained then [Fclose_in infile] else [])
            in ((if load_ok w then Loaded else Nil_value), snd (fst parsed),
                opened @ snd parsed @ closing)))"

subsection \<open>The output dispatcher\<close>

text \<open>
  \<open>dump_file\<close> (lines 281-318). \<open>fp\<close> is the stream \<open>wfp\<close>; \<open>target\<close> is the parameter
  \<open>outfile\<close>, the pointer and the C string it points to;
  \<open>file_ext\<close> is NULL (\<open>None\<close>) when the name has no dot. The result is the status and
  the events of the call.
\<close>

definition dump_file :: "world \<Rightarrow> out_stream \<Rightarrow> char_ptr \<times> string \<Rightarrow> mrbc_args \<Rightarrow> dump_status \<times> event list" where
  "dump_file w fp target args =
     (let file_ext = (case strrchr (snd target) (CHR ''.'') of
                        None \<Rightarrow> None
                      | Some k \<Rightarrow> Some (ptr_add (fst target) k));
          lv = (if remove_lv args then [Remove_lv] else [])
      in case initname args of
           Some name \<Rightarrow>
             (let call = (if file_ext \<noteq> None \<and> file_ext = Some C_HEAD_EXT_ptr
                          then Dump_cheader (flags args) fp name
                          else if MRB_DUMP_STRUCT \<in> flags args
                          then Dump_cstruct (flags args) fp name
                          else Dump_cvar (flags args) fp name (line_size args));
                  n = codec_status w call
              in (n, lv @ [Codec call]
                     @ (if n = MRB_DUMP_INVALID_ARGUMENT then [Stderr (Invalid_C_symbol_name name)] else [])
                     @ (if n \<noteq> MRB_DUMP_OK then [Stderr (Error_in_mrb_dump (snd target) n)] else [])))
         | None \<Rightarrow>
             if MRB_DUMP_STATIC \<in> flags args
             then (MRB_DUMP_INVALID_ARGUMENT, lv @ [Stderr Option_s_requires_B])
             else
               (let n = codec_status w (Dump_binary (flags args) fp)
                in (n, lv @ [Codec (Dump_binary (flags args) fp)]
                       @ (if n \<noteq> MRB_DUMP_OK then [Stderr (Error_in_mrb_dump (snd target) n)] else []))))"

subsection \<open>The driver\<close>

datatype exit_code = EXIT_SUCCESS | EXIT_FAILURE

text \<open>
  How a run ends: with an exit code, or in a trap (the unassigned local \<open>outfilename\<close>
  is used and does not point to a string, or a NULL pointer is read as a string).
\<close>

datatype outcome = Exit exit_code | Undefined_behaviour

text \<open>
  The bytecode/C file dump of \<open>main\<close> (lines 368-388). \<open>outfilename\<close> is the value of
  the local variable as the run finds it, \<open>None\<close> when using it traps. The first
  component of the result is \<open>None\<close> when control goes on to the header dump.
\<close>

definition primary_dump :: "world \<Rightarrow> mrbc_args \<Rightarrow> (char_ptr \<times> string) option \<Rightarrow> outcome option \<times> event list" where
  "primary_dump w args outfilename =
     (case outfile args of
        None \<Rightarrow> (Some (Exit EXIT_FAILURE), [Stderr Output_file_is_required])
      | Some f \<Rightarrow>
          (case outfilename of
             None \<Rightarrow> (Some Undefined_behaviour, [])
           | Some fn \<Rightarrow>
               if f \<noteq> ''-'' \<and> \<not> writable w (snd fn)
               then (Some (Exit EXIT_FAILURE),
                     [Fopen_write (snd fn) False, Stderr (Cannot_open_output_file (snd fn))])
               else
                 (let fp = (if f = ''-'' then Stdout else Out_file (snd fn));
                      opened = (if f = ''-'' then [] else [Fopen_write (snd fn) True])
                  in case dump_file w fp fn args of
                       (result, ev) \<Rightarrow>
                         ((if result \<noteq> MRB_DUMP_OK then Some (Exit EXIT_FAILURE) else None),
                          opened @ ev @ [Fclose_out fp]))))"

text \<open>
  The C header file dump of \<open>main\<close> (lines 390-412). The \<open>else\<close> of line 401 belongs to
  the chain that starts at line 394: it is taken when the output is not standard output and
  the derived file was opened.
\<close>

definition header_dump :: "world \<Rightarrow> mrbc_args \<Rightarrow> outcome \<times> event list" where
  "header_dump w args =
     (if MRB_DUMP_HEADER \<in> flags args then
        (case outfile args of
           None \<Rightarrow> (Undefined_behaviour, [])
         | Some f \<Rightarrow>
             (case get_outfilename f C_HEAD_EXT of
                None \<Rightarrow> (Undefined_behaviour, [])
              | Some name \<Rightarrow>
                  if f = ''-'' then
                    (case dump_file w Stdout (Ptr (Heap_block 1) 0, name) args of
                       (result, ev) \<Rightarrow>
                         ((if result \<noteq> MRB_DUMP_OK then Exit EXIT_FAILURE else Exit EXIT_SUCCESS),
                          ev @ [Fclose_out Stdout]))
                  else if \<not> writable w name
                  then (Exit EXIT_FAILURE,
                        [Fopen_write name False, Stderr (Cannot_open_output_file name)])
                  else (Exit EXIT_FAILURE, [Fopen_write name True, Stderr Output_file_is_required])))
      else (Exit EXIT_SUCCESS, []))"

text \<open>
  The start of \<open>main\<close> up to \<open>args.idx = n\<close> (lines 323-356): either the run ends here, or
  it goes on with the configuration (cursor at the first input) and the local
  \<open>outfilename\<close>, which is assigned on one path only (line 348) and is otherwise whatever
  the world makes of the unassigned local. \<open>stack\<close> is the indeterminate content of the
  local \<open>args\<close> before line 335. Line 348 reads \<open>args.outfile ? args.outfile, argv[n]\<close>; it is taken as the
  conditional expression \<open>args.outfile ? args.outfile : argv[n]\<close>.
\<close>

datatype prologue =
    Ended outcome "event list"
  | Go_on mrbc_args "(char_ptr \<times> string) option" "event list"

definition main_prologue :: "world \<Rightarrow> mrbc_args \<Rightarrow> string list \<Rightarrow> prologue" where
  "main_prologue w stack av =
     (if \<not> mrb_open_ok w then Ended (Exit EXIT_FAILURE) [Stderr Invalid_mrb_state]
      else
        (case parse_args (mrb_read_int w) av (stack\<lparr>line_size := 16\<rparr>) of
           Exit_success args ev \<Rightarrow> Ended (Exit EXIT_SUCCESS) ev
         | Return n args ev \<Rightarrow>
             if n < 0 then Ended (Exit EXIT_FAILURE) (ev @ [Usage])
             else if n = int (length av)
             then Ended (Exit EXIT_FAILURE) (ev @ [Stderr No_program_file_given])
             else if outfile args = None \<and> \<not> check_syntax args
             then
               (if n + 1 = int (length av)
                then Go_on (args\<lparr>idx := n\<rparr>)
                       (case get_outfilename
                               (case outfile args of Some f \<Rightarrow> f | None \<Rightarrow> av ! nat n)
                               (if initname args \<noteq> None then C_EXT else RITEBIN_EXT) of
                          None \<Rightarrow> None
                        | Some name \<Rightarrow> Some (Ptr (Heap_block 0) 0, name))
                       ev
                else Ended (Exit EXIT_FAILURE) (ev @ [Stderr Output_file_should_be_specified]))
             else Go_on (args\<lparr>idx := n\<rparr>) (unassigned_outfilename w) ev))"

text \<open>\<open>main\<close> (lines 320-415): the outcome of the run and everything it did.\<close>

definition main :: "world \<Rightarrow> mrbc_args \<Rightarrow> string list \<Rightarrow> outcome \<times> event list" where
  "main w stack av =
     (case main_prologue w stack av of
        Ended oc ev \<Rightarrow> (oc, ev)
      | Go_on args outfilename ev \<Rightarrow>
          (case load_file w args of
             (load, args', ev2) \<Rightarrow>
               if load = Nil_value then (Exit EXIT_FAILURE, ev @ ev2)
               else if check_syntax args'
               then (Exit EXIT_SUCCESS, ev @ ev2 @ [Syntax_OK (av ! nat (idx args))])
               else
                 (case primary_dump w args' outfilename of
                    (Some oc, ev3) \<Rightarrow> (oc, ev @ ev2 @ ev3)
                  | (None, ev3) \<Rightarrow>
                      (case header_dump w args' of
                         (oc, ev4) \<Rightarrow> (oc, ev @ ev2 @ ev3 @ ev4)))))"

subsection \<open>A sample world\<close>

text \<open>
  A world for running the driver on concrete command lines: the interpreter state can be
  created, every file can be opened, the parser polls the hook four times, every program
  compiles and every codec succeeds. Numbers are read as plain decimal digits, and using
  the unassigned \<open>outfilename\<close> traps.
\<close>

fun decimal :: "string \<Rightarrow> int \<Rightarrow> int option" where
  "decimal [] n = Some n"
| "decimal (c # cs) n =
     (if c \<in> set ''0123456789''
      then decimal cs (10 * n + (of_char c - 48))
      else None)"

definition sample_world :: world where
  "sample_world =
     \<lparr> mrb_open_ok = True,
       mrb_read_int = (\<lambda>s. if s = [] then None else decimal s 0),
       readable = (\<lambda>f. True),
       writable = (\<lambda>f. True),
       hook_polls = 4,
       load_ok = True,
       codec_status = (\<lambda>c. MRB_DUMP_OK),
       unassigned_outfilename = None \<rparr>"

subsection \<open>Vocabulary of the properties\<close>

text \<open>The configuration and the output a parse ends with.\<close>

fun result_args :: "parse_result \<Rightarrow> mrbc_args" where
  "result_args (Return n a ev) = a"
| "result_args (Exit_success a ev) = a"

fun result_events :: "parse_result \<Rightarrow> event list" where
  "result_events (Return n a ev) = ev"
| "result_events (Exit_success a ev) = ev"

text \<open>
  The kinds of event: lines printed, opens for writing, codec calls. An event is harmless
  when it neither opens a file for writing nor runs a codec.
\<close>

fun printed :: "event \<Rightarrow> bool" where
  "printed Show_version = True"
| "printed Show_copyright = True"
| "printed Usage = True"
| "printed (Stderr d) = True"
| "printed (Syntax_OK f) = True"
| "printed e = False"

fun is_codec :: "event \<Rightarrow> bool" where
  "is_codec (Codec c) = True"
| "is_codec e = False"

fun opens_output :: "event \<Rightarrow> bool" where
  "opens_output (Fopen_write f b) = True"
| "opens_output e = False"

definition harmless :: "event \<Rightarrow> bool" where
  "harmless e = (\<not> opens_output e \<and> \<not> is_codec e)"

text \<open>\<open>same_config a a'\<close>: the two configurations differ in the cursor at most.\<close>

definition same_config :: "mrbc_args \<Rightarrow> mrbc_args \<Rightarrow> bool" where
  "same_config a a' = (a' = a\<lparr>idx := idx a'\<rparr>)"

text \<open>The first input of the loader cannot be opened: it is not standard input and not readable.\<close>

definition first_input_fails :: "world \<Rightarrow> mrbc_args \<Rightarrow> bool" where
  "first_input_fails w a =
     (\<not> (char_at (argv a ! nat (idx a)) 0 = CHR ''-'' \<and> char_at (argv a ! nat (idx a)) 1 = NUL) \<and>
      \<not> readable w (argv a ! nat (idx a)))"

text \<open>
  What one step of the option parser may do, in one place: the loop variable stays or
  moves on by one element that exists; a returned value is -1 or the index of the element;
  the count, the vector and the cursor are kept; \<open>line_size\<close> is kept unless the element
  is exactly \<open>--line-size\<close>; and the output only grows, by printed lines.
\<close>

definition kept :: "string \<Rightarrow> mrbc_args \<Rightarrow> event list \<Rightarrow> mrbc_args \<Rightarrow> event list \<Rightarrow> bool" where
  "kept s a out a' out' =
     (argc a' = argc a \<and> argv a' = argv a \<and> idx a' = idx a \<and>
      (line_size a' = line_size a \<or>
         (char_at s 0 = CHR ''-'' \<and> char_at s 1 = CHR ''-'' \<and> drop 2 s = ''line-size'')) \<and>
      take (length out) out' = out \<and> list_all printed (drop (length out) out'))"

fun step_ok :: "string list \<Rightarrow> nat \<Rightarrow> mrbc_args \<Rightarrow> event list \<Rightarrow> parse_step \<Rightarrow> bool" where
  "step_ok av i a out (Next j a' out') =
     ((j = i \<or> (j = i + 1 \<and> i + 1 < length av)) \<and> kept (av ! i) a out a' out')"
| "step_ok av i a out (Stop (Return n a' out')) =
     ((n = - 1 \<or> n = int i) \<and> kept (av ! i) a out a' out')"
| "step_ok av i a out (Stop (Exit_success a' out')) = kept (av ! i) a out a' out'"


section \<open>Properties of the filename deriver\<close>

lemma c_str_terminated:
  "NUL \<notin> set s \<Longrightarrow> c_str (map Some s @ Some NUL # rest) = Some s"
  by (induction s) auto

lemma strrchr_None: "(strrchr s c = None) = (c \<notin> set s)"
  by (induction s) (auto split: option.splits)

lemma strrchr_last:
  "c \<notin> set suffix \<Longrightarrow> strrchr (stem @ c # suffix) c = Some (length stem)"
  by (induction stem) (auto simp: strrchr_None split: option.splits)

lemma drop_Cons_replicate: "drop i (x # replicate n x) = replicate (Suc n - i) x"
  by (metis drop_replicate replicate_Suc)

text \<open>Without a dot, or with an empty extension, the whole input and its terminator are copied.\<close>

lemma get_outfilename_unchanged:
  assumes "NUL \<notin> set infile" and "CHR ''.'' \<notin> set infile \<or> ext = []"
  shows "get_outfilename infile ext = Some infile"
proof -
  have p: "(if ext \<noteq> [] then strrchr infile (CHR ''.'') else None) = None"
    using assms(2) by (auto simp: strrchr_None)
  have "strncpy (mrb_malloc (Suc n)) 0 infile (Suc (length infile))
        = Some (map Some infile @ Some NUL # replicate (n - length infile) None)"
    if "length infile \<le> n" for n
    using that by (simp add: strncpy_def mrb_malloc_def)
  thus ?thesis
    using assms(1) by (simp add: get_outfilename_def Let_def p c_str_terminated)
qed

text \<open>
  With a dot and a non-empty extension the first copy stops after the last dot and leaves
  the string unterminated; the second copy overwrites the dot with the extension and
  terminates it. The cells behind stay indeterminate and are never read.
\<close>

lemma get_outfilename_replaced:
  assumes "NUL \<notin> set infile" and "NUL \<notin> set ext" and "ext \<noteq> []"
    and "infile = stem @ CHR ''.'' # suffix" and "CHR ''.'' \<notin> set suffix"
  shows "get_outfilename infile ext = Some (stem @ ext)"
proof -
  let ?k = "length stem"
  let ?n = "length infile + length ext"
  have p: "strrchr infile (CHR ''.'') = Some ?k"
    using assms(4,5) by (simp add: strrchr_last)
  have b1: "strncpy (mrb_malloc (Suc ?n)) 0 infile (Suc ?k)
        = Some (map Some stem @ Some (CHR ''.'') # replicate (?n - ?k) None)"
    using assms(4)
    by (simp add: strncpy_def mrb_malloc_def del: replicate_Suc replicate.simps
             add: replicate_Suc [symmetric])
  have b2: "strncpy (map Some stem @ Some (CHR ''.'') # replicate (?n - ?k) None) ?k ext
              (Suc (length ext))
        = Some (map Some (stem @ ext) @ Some NUL # replicate (?n - ?k - length ext) None)"
    using assms(4) by (simp add: strncpy_def drop_Cons_replicate Suc_diff_le)
  have "NUL \<notin> set (stem @ ext)"
    using assms(1,2,4) by auto
  hence "c_str (map Some (stem @ ext) @ Some NUL # replicate (?n - ?k - length ext) None)
         = Some (stem @ ext)"
    by (rule c_str_terminated)
  thus ?thesis
    using assms(3) by (simp add: get_outfilename_def Let_def p b1 b2 del: map_append)
qed

text \<open>
  C8: for every input filename and requested extension (both C strings), the filename
  deriver returns the input unchanged when the input has no dot, whatever the extension,
  or when the extension is empty; and it returns the text before the input's last dot
  followed by the extension when the input has a dot and the extension is not empty.
\<close>

theorem get_outfilename_derives:
  assumes "NUL \<notin> set infile" and "NUL \<notin> set ext"
  shows "(CHR ''.'' \<notin> set infile \<or> ext = [] \<longrightarrow> get_outfilename infile ext = Some infile) \<and>
         (\<forall>stem suffix. infile = stem @ CHR ''.'' # suffix \<and> CHR ''.'' \<notin> set suffix \<and> ext \<noteq> []
            \<longrightarrow> get_outfilename infile ext = Some (stem @ ext))"
  using assms get_outfilename_unchanged [of infile ext] get_outfilename_replaced [of infile ext]
  by blast

theorem get_outfilename_derives_witness:
  "get_outfilename ''lib/foo.rb'' ''.mrb'' = Some ''lib/foo.mrb'' \<and>
   get_outfilename ''foo'' ''.mrb'' = Some ''foo'' \<and>
   get_outfilename ''foo.rb'' [] = Some ''foo.rb''"
proof -
  have nul: "NUL \<notin> set ''lib/foo.rb''" "NUL \<notin> set ''.mrb''" "NUL \<notin> set ''foo''"
    "NUL \<notin> set ''foo.rb''" "NUL \<notin> set []"
    by (simp_all add: NUL_def)
  have "get_outfilename ''lib/foo.rb'' ''.mrb'' = Some (''lib/foo'' @ ''.mrb'')"
    using get_outfilename_derives [OF nul(1) nul(2), THEN conjunct2, THEN spec, THEN spec,
        of "''lib/foo''" "''rb''"]
    by simp
  moreover have "get_outfilename ''foo'' ''.mrb'' = Some ''foo''"
    using get_outfilename_derives [OF nul(3) nul(2), THEN conjunct1] by simp
  moreover have "get_outfilename ''foo.rb'' [] = Some ''foo.rb''"
    using get_outfilename_derives [OF nul(4) nul(5), THEN conjunct1] by simp
  ultimately show ?thesis by simp
qed

section \<open>Properties of the option parser\<close>

declare parse_loop.simps [simp del]

text \<open>A step looks at the element it stands on, at the next one, and at the count.\<close>

lemma option_step_cong:
  assumes "length av' = length av" and "av' ! i = av ! i" and "av' ! (i + 1) = av ! (i + 1)"
  shows "option_step rd av' i a out = option_step rd av i a out"
  unfolding option_step_def long_option_def assms by (rule refl)

text \<open>The loop from index \<open>i\<close> on never looks back at an element before \<open>i\<close>.\<close>

lemma parse_loop_cong:
  "length av' = length av \<Longrightarrow> (\<forall>j\<ge>i. av' ! j = av ! j) \<Longrightarrow>
   parse_loop rd av' i a out = parse_loop rd av i a out"
proof (induction rd av i a out rule: parse_loop.induct)
  case (1 rd av i args out)
  have step: "option_step rd av' i args out = option_step rd av i args out"
    using "1.prems" by (intro option_step_cong) auto
  show ?case
  proof (cases "option_step rd av i args out")
    case (Next j args' out')
    have "i < length av \<Longrightarrow>
          parse_loop rd av' (Suc j) args' out' = parse_loop rd av (Suc j) args' out'"
      using "1.IH" [OF _ Next] "1.prems" option_step_Next [OF Next] by auto
    then show ?thesis
      using "1.prems"(1) step Next
      by (simp add: parse_loop.simps [of rd av' i] parse_loop.simps [of rd av i])
  next
    case (Stop r)
    then show ?thesis
      using "1.prems"(1) step
      by (simp add: parse_loop.simps [of rd av' i] parse_loop.simps [of rd av i])
  qed
qed

text \<open>
  For a flag that takes no value the step reads the dash and the character after it,
  nothing else of the element.
\<close>

lemma valueless_step:
  assumes "i < length av" and "av ! i = CHR ''-'' # c # rest" and "c \<in> set ''SH8cvgsEeh''"
  shows "option_step rd av i a out = option_step rd (av[i := [CHR ''-'', c]]) i a out"
  using assms by (auto simp: option_step_def char_at_def Let_def)

text \<open>
  C10: a short option is matched on the character right after the dash only. For the flags
  that take no value (\<open>S H 8 c v g s E e h\<close>) whatever follows that character in the same
  element is ignored: parsing from an element \<open>-c...\<close> gives the same result as parsing
  from the bare \<open>-c\<close>, so flags bundled into one element are not recognised.
\<close>

theorem short_option_trailing_ignored:
  assumes "i < length av" and "av ! i = CHR ''-'' # c # rest" and "c \<in> set ''SH8cvgsEeh''"
  shows "parse_loop rd av i a out = parse_loop rd (av[i := [CHR ''-'', c]]) i a out"
proof -
  let ?av = "av[i := [CHR ''-'', c]]"
  have step: "option_step rd av i a out = option_step rd ?av i a out"
    using assms by (rule valueless_step)
  have rest: "parse_loop rd ?av (Suc j) a' out' = parse_loop rd av (Suc j) a' out'"
    if "option_step rd av i a out = Next j a' out'" for j a' out'
    using option_step_Next [OF that] by (intro parse_loop_cong) auto
  show ?thesis
    using assms(1) step rest
    by (simp add: parse_loop.simps [of rd av i] parse_loop.simps [of rd ?av i]
             split: parse_step.splits)
qed

text \<open>The element \<open>-vg\<close> turns verbose mode on and leaves the debug-info flag off.\<close>

theorem short_option_trailing_ignored_witness:
  "parse_loop (\<lambda>s. None) [''mrbc'', ''-vg'', ''in.rb''] 1 args_zero [] =
     parse_loop (\<lambda>s. None) [''mrbc'', ''-v'', ''in.rb''] 1 args_zero [] \<and>
   parse_loop (\<lambda>s. None) [''mrbc'', ''-vg'', ''in.rb''] 1 args_zero [] =
     Return 2 (args_zero\<lparr>verbose := True\<rparr>) [Show_version] \<and>
   MRB_DUMP_DEBUG_INFO \<notin> flags (args_zero\<lparr>verbose := True\<rparr>)"
proof -
  have "parse_loop (\<lambda>s. None) [''mrbc'', ''-vg'', ''in.rb''] 1 args_zero [] =
        parse_loop (\<lambda>s. None) ([''mrbc'', ''-vg'', ''in.rb''][1 := [CHR ''-'', CHR ''v'']]) 1 args_zero []"
    by (rule short_option_trailing_ignored [where rest = "''g''"]) simp_all
  moreover have "parse_loop (\<lambda>s. None) [''mrbc'', ''-v'', ''in.rb''] 1 args_zero [] =
        Return 2 (args_zero\<lparr>verbose := True\<rparr>) [Show_version]"
    by code_simp
  ultimately show ?thesis
    by (simp add: args_zero_def)
qed

text \<open>A property of configuration and output that every step keeps is kept by the loop.\<close>

lemma parse_loop_invariant:
  assumes "\<And>i a out. P a out \<Longrightarrow> i < length av \<Longrightarrow>
            (case option_step rd av i a out of
               Next j a' out' \<Rightarrow> P a' out'
             | Stop r \<Rightarrow> P (result_args r) (result_events r))"
    and "P a out"
  shows "P (result_args (parse_loop rd av i a out)) (result_events (parse_loop rd av i a out))"
  using assms
proof (induction rd av i a out rule: parse_loop.induct)
  case (1 rd av i args out)
  note step = "1.prems"(1) and start = "1.prems"(2)
  show ?case
  proof (cases "i < length av")
    case False
    then show ?thesis
      using start by (simp add: parse_loop.simps [of rd av i])
  next
    case True
    note inv = step [OF start True]
    show ?thesis
    proof (cases "option_step rd av i args out")
      case (Next j args' out')
      then have "P args' out'"
        using inv by simp
      then show ?thesis
        using "1.IH" [OF True Next step] True Next
        by (simp add: parse_loop.simps [of rd av i])
    next
      case (Stop r)
      then show ?thesis
        using inv True by (simp add: parse_loop.simps [of rd av i])
    qed
  qed
qed

text \<open>Every step of the option parser is within \<open>step_ok\<close>.\<close>

lemma long_option_ok:
  "char_at (av ! i) 0 = CHR ''-'' \<Longrightarrow> char_at (av ! i) 1 = CHR ''-'' \<Longrightarrow>
   step_ok av i a out (long_option rd av i a out)"
  by (simp add: long_option_def Let_def kept_def split: option.split prod.split)

lemma option_step_ok: "step_ok av i a out (option_step rd av i a out)"
  by (simp add: option_step_def Let_def long_option_ok)
     (simp add: kept_def split: option.split)

lemma step_ok_kept:
  "step_ok av i a out st \<Longrightarrow>
   (case st of
      Next j a' out' \<Rightarrow> kept (av ! i) a out a' out'
    | Stop r \<Rightarrow> kept (av ! i) a out (result_args r) (result_events r))"
  by (cases "(av, i, a, out, st)" rule: step_ok.cases) auto

text \<open>So whatever every such step keeps, the loop keeps.\<close>

lemma parse_loop_keeps:
  assumes "\<And>i a1 out1 a2 out2.
             i < length av \<Longrightarrow> P a1 out1 \<Longrightarrow> kept (av ! i) a1 out1 a2 out2 \<Longrightarrow> P a2 out2"
    and "P a out"
  shows "P (result_args (parse_loop rd av i a out)) (result_events (parse_loop rd av i a out))"
proof (rule parse_loop_invariant [of P av rd, OF _ assms(2)])
  fix i :: nat and a1 :: mrbc_args and out1 :: "event list"
  assume "P a1 out1" and "i < length av"
  then show "case option_step rd av i a1 out1 of
               Next j a' out' \<Rightarrow> P a' out'
             | Stop r \<Rightarrow> P (result_args r) (result_events r)"
    using step_ok_kept [OF option_step_ok, of av i a1 out1 rd] assms(1) [of i a1 out1]
    by (simp split: parse_step.splits)
qed

text \<open>The parser sets options; it does not touch the count, the vector or the cursor.\<close>

lemma parse_loop_frame:
  "argc (result_args (parse_loop rd av i a out)) = argc a \<and>
   argv (result_args (parse_loop rd av i a out)) = argv a \<and>
   idx (result_args (parse_loop rd av i a out)) = idx a"
proof -
  have "(\<lambda>a' out'. argc a' = argc a \<and> argv a' = argv a \<and> idx a' = idx a)
          (result_args (parse_loop rd av i a out)) (result_events (parse_loop rd av i a out))"
    by (rule parse_loop_keeps) (simp_all add: kept_def)
  then show ?thesis by simp
qed

text \<open>The parser opens no file and runs no codec: it prints, at most.\<close>

lemma parse_loop_prints:
  assumes "list_all printed out"
  shows "list_all printed (result_events (parse_loop rd av i a out))"
proof -
  have grow: "list_all printed out2"
    if "list_all printed out1" and "kept s a1 out1 a2 out2" for s a1 out1 a2 out2
  proof -
    have "out2 = out1 @ drop (length out1) out2"
      using that(2) append_take_drop_id [of "length out1" out2] by (simp add: kept_def)
    moreover have "list_all printed (drop (length out1) out2)"
      using that(2) by (simp add: kept_def)
    ultimately show ?thesis
      using that(1) by (metis list_all_append)
  qed
  have "(\<lambda>a' out'. list_all printed out')
          (result_args (parse_loop rd av i a out)) (result_events (parse_loop rd av i a out))"
    using assms by (intro parse_loop_keeps [where P = "\<lambda>a' out'. list_all printed out'"]) (auto intro: grow)
  then show ?thesis by simp
qed

text \<open>
  The only assignment to \<open>line_size\<close> sits behind the exact match of the element with
  \<open>--line-size\<close> (line 189): without such an element the field keeps its value.
\<close>

lemma exactly_line_size:
  assumes "char_at s 0 = CHR ''-''" and "char_at s 1 = CHR ''-''" and "drop 2 s = ''line-size''"
  shows "s = ''--line-size''"
proof -
  obtain x y r where s: "s = x # y # r"
    using assms(3) by (cases s; cases "tl s") auto
  then show ?thesis
    using assms by (simp add: char_at_def)
qed

lemma parse_loop_line_size:
  assumes "''--line-size'' \<notin> set av"
  shows "line_size (result_args (parse_loop rd av i a out)) = line_size a"
proof -
  have "(\<lambda>a' out'. line_size a' = line_size a)
          (result_args (parse_loop rd av i a out)) (result_events (parse_loop rd av i a out))"
  proof (rule parse_loop_keeps)
    fix i and a1 a2 :: mrbc_args and out1 out2 :: "event list"
    assume i: "i < length av" and "line_size a1 = line_size a" and "kept (av ! i) a1 out1 a2 out2"
    moreover have "av ! i \<noteq> ''--line-size''"
      using assms i by (metis nth_mem)
    ultimately show "line_size a2 = line_size a"
      using exactly_line_size [of "av ! i"] by (auto simp: kept_def)
  qed simp
  then show ?thesis by simp
qed

text \<open>
  The value \<open>parse_args\<close> returns, when it returns one: -1, or an index from where the
  loop started up to the count. (With an empty vector the loop does not run and the index
  is 1.)
\<close>

lemma parse_loop_index:
  "parse_loop rd av i a out = Return n a' out' \<Longrightarrow>
   n = - 1 \<or> (int i \<le> n \<and> (i \<le> length av \<longrightarrow> n \<le> int (length av)))"
proof (induction rd av i a out rule: parse_loop.induct)
  case (1 rd av i args out)
  show ?case
  proof (cases "i < length av")
    case False
    then show ?thesis
      using "1.prems" by (simp add: parse_loop.simps [of rd av i])
  next
    case True
    show ?thesis
    proof (cases "option_step rd av i args out")
      case (Next j args' out'')
      have j: "j = i \<or> (j = i + 1 \<and> i + 1 < length av)"
        using option_step_ok [of av i args out rd] Next by simp
      have "parse_loop rd av (Suc j) args' out'' = Return n a' out'"
        using "1.prems" True Next by (simp add: parse_loop.simps [of rd av i])
      from "1.IH" [OF True Next this] j True show ?thesis
        by auto
    next
      case (Stop r)
      then have "option_step rd av i args out = Stop (Return n a' out')"
        using "1.prems" True by (simp add: parse_loop.simps [of rd av i])
      then show ?thesis
        using True option_step_ok [of av i args out rd] by auto
    qed
  qed
qed

text \<open>
  The same for \<open>parse_args\<close>: it starts the loop at 1 from the zeroed record, whatever
  the caller had put into the record before.
\<close>

lemma parse_args_frame:
  "argc (result_args (parse_args rd av stack)) = int (length av) \<and>
   argv (result_args (parse_args rd av stack)) = av \<and>
   idx (result_args (parse_args rd av stack)) = 0"
  using parse_loop_frame [of rd av 1 _ "[]"] by (simp add: parse_args_def args_zero_def)

lemma parse_args_index:
  assumes "parse_args rd av stack = Return n a ev"
  shows "n = - 1 \<or> (1 \<le> n \<and> (av \<noteq> [] \<longrightarrow> n \<le> int (length av)))"
proof -
  have "av \<noteq> [] \<Longrightarrow> 1 \<le> length av"
    by (cases av) simp_all
  then show ?thesis
    using parse_loop_index [of rd av 1 _ "[]" n a ev] assms by (auto simp: parse_args_def)
qed

lemma parse_args_prints: "list_all printed (result_events (parse_args rd av stack))"
  by (simp add: parse_args_def parse_loop_prints)

text \<open>Without an element \<open>--line-size\<close> the line width \<open>parse_args\<close> leaves is 0.\<close>

lemma parse_args_line_size:
  "''--line-size'' \<notin> set av \<Longrightarrow> line_size (result_args (parse_args rd av stack)) = 0"
  by (simp add: parse_args_def parse_loop_line_size args_zero_def)

text \<open>
  And an element \<open>--line-size\<close> is accepted only if \<open>mrb_read_int\<close> reads a number from
  1 to 255 out of the text \<open>line-size\<close> itself: the element has no room for a value, and
  the following element is not consulted because \<open>argv[i][2]\<close> is the letter l.
\<close>

lemma line_size_needs_number:
  assumes "char_at (av ! i) 0 = CHR ''-''" and "char_at (av ! i) 1 = CHR ''-''"
    and "drop 2 (av ! i) = ''line-size''"
  shows "option_step rd av i a out =
           (case rd ''line-size'' of
              None \<Rightarrow> Stop (Return (- 1) a (out @ [Stderr (Line_size_out_of_bounds None)]))
            | Some v \<Rightarrow>
                if v < 1 \<or> v > 255
                then Stop (Return (- 1) a
                             (out @ [Stderr (Line_size_out_of_bounds (Some (signed_take_bit 31 v)))]))
                else Next i (a\<lparr>line_size := v mod 256\<rparr>) out)"
proof -
  have "av ! i = ''--line-size''"
    using assms by (rule exactly_line_size)
  then show ?thesis
    by (simp add: option_step_def long_option_def Let_def char_at_def NUL_def)
qed

section \<open>What the driver does on the command lines of the claims\<close>

text \<open>
  C3 (the code departs from the claim): \<open>main\<close> stores 16 in \<open>line_size\<close> (line 335),
  but \<open>parse_args\<close> then overwrites the whole record with zeros (line 98). On the command
  line \<open>mrbc -Bsym in.rb\<close>, which has no \<open>--line-size\<close>, the configuration that comes back
  has line width 0, and that 0 is what \<open>dump_file\<close> hands to the C-variable codec.
\<close>

theorem default_line_size_lost:
  "parse_args rd [''mrbc'', ''-Bsym'', ''in.rb''] (stack\<lparr>line_size := 16\<rparr>) =
     Return 2
       (args_zero\<lparr>argc := 3, argv := [''mrbc'', ''-Bsym'', ''in.rb''], prog := Some ''mrbc'',
                  initname := Some ''sym''\<rparr>) [] \<and>
   Codec (Dump_cvar {} (Out_file ''in.c'') ''sym'' 0)
     \<in> set (snd (dump_file w (Out_file ''in.c'') (Ptr (Heap_block 0) 0, ''in.c'')
                   (args_zero\<lparr>argc := 3, argv := [''mrbc'', ''-Bsym'', ''in.rb''],
                              prog := Some ''mrbc'', initname := Some ''sym''\<rparr>)))"
  by (simp add: parse_args_def parse_loop.simps option_step_def char_at_def NUL_def Let_def
        dump_file_def C_HEAD_EXT_ptr_def args_zero_def)

text \<open>
  C4 (the code departs from the claim): a long option is compared as a whole with
  \<open>line-size\<close> (line 189), so \<open>--line-size=1\<close> and \<open>--line-size=255\<close> match no branch and
  fall to the \<open>return -1\<close> of line 206: both are rejected, whatever \<open>mrb_read_int\<close> would
  read, and no line-size diagnostic is printed.
\<close>

theorem line_size_values_rejected:
  "parse_args rd [''mrbc'', ''--line-size=1'', ''in.rb''] stack =
     Return (- 1)
       (args_zero\<lparr>argc := 3, argv := [''mrbc'', ''--line-size=1'', ''in.rb''],
                  prog := Some ''mrbc''\<rparr>) [] \<and>
   parse_args rd [''mrbc'', ''--line-size=255'', ''in.rb''] stack =
     Return (- 1)
       (args_zero\<lparr>argc := 3, argv := [''mrbc'', ''--line-size=255'', ''in.rb''],
                  prog := Some ''mrbc''\<rparr>) []"
  by (simp add: parse_args_def parse_loop.simps option_step_def long_option_def char_at_def
        Let_def)

text \<open>
  The same holds for every value: an element \<open>--line-size=\<close>\<open>v\<close> ends the parse with
  -1, with nothing stored and nothing printed.
\<close>

lemma line_size_with_value_rejected:
  "av ! i = ''--line-size='' @ v \<Longrightarrow> option_step rd av i a out = Stop (Return (- 1) a out)"
  by (simp add: option_step_def long_option_def char_at_def Let_def)

text \<open>The two rejections the claim asks for do happen, by the same fall-through.\<close>

lemma line_size_0_and_256_rejected:
  "parse_args rd [''mrbc'', ''--line-size=0'', ''in.rb''] stack =
     Return (- 1)
       (args_zero\<lparr>argc := 3, argv := [''mrbc'', ''--line-size=0'', ''in.rb''],
                  prog := Some ''mrbc''\<rparr>) [] \<and>
   parse_args rd [''mrbc'', ''--line-size=256'', ''in.rb''] stack =
     Return (- 1)
       (args_zero\<lparr>argc := 3, argv := [''mrbc'', ''--line-size=256'', ''in.rb''],
                  prog := Some ''mrbc''\<rparr>) []"
  by (simp add: parse_args_def parse_loop.simps option_step_def long_option_def char_at_def
        Let_def)

text \<open>
  The dispatcher with an embed symbol: exactly one codec runs, and for a name that lives in
  a block from the allocator (as every name \<open>main\<close> passes does) it is never the C-header
  codec, since a pointer into the block is not the pointer to the literal.
\<close>

lemma dump_file_one_codec:
  "initname args = Some name \<Longrightarrow> length (filter is_codec (snd (dump_file w fp target args))) = 1"
  by (simp add: dump_file_def Let_def)

lemma dump_file_heap_never_cheader:
  "Codec (Dump_cheader fl s name) \<notin> set (snd (dump_file w fp (Ptr (Heap_block b) off, str) args))"
  by (auto simp: dump_file_def Let_def C_HEAD_EXT_ptr_def split: option.splits)

lemma dump_file_heap_choice:
  assumes "initname args = Some name"
  shows "Codec (if MRB_DUMP_STRUCT \<in> flags args
                then Dump_cstruct (flags args) fp name
                else Dump_cvar (flags args) fp name (line_size args))
           \<in> set (snd (dump_file w fp (Ptr (Heap_block b) off, str) args))"
  using assms by (auto simp: dump_file_def Let_def C_HEAD_EXT_ptr_def split: option.splits)

text \<open>
  C5 (the code departs from the claim): line 292 compares the address \<open>strrchr\<close> returns
  with the address of the literal \<open>".h"\<close> instead of comparing the characters. For the
  target \<open>out.h\<close> in an allocated buffer, with an embed symbol and no struct flag, the
  C-variable codec runs, not the C-header codec.
\<close>

theorem header_extension_not_recognised:
  "dump_file sample_world (Out_file ''out.h'') (Ptr (Heap_block 1) 0, ''out.h'')
     (args_zero\<lparr>initname := Some ''sym''\<rparr>) =
   (MRB_DUMP_OK, [Codec (Dump_cvar {} (Out_file ''out.h'') ''sym'' 0)])"
  by (simp add: dump_file_def Let_def C_HEAD_EXT_ptr_def sample_world_def args_zero_def)

text \<open>
  The header dump of \<open>main\<close> reaches \<open>dump_file\<close> only when the output is standard
  output. With any other output path it ends the run with a failure, after opening the
  derived file when that is possible, and runs no codec.
\<close>

lemma header_dump_to_file_fails:
  assumes "MRB_DUMP_HEADER \<in> flags args" and "outfile args = Some f" and "f \<noteq> ''-''"
  shows "fst (header_dump w args) \<noteq> Exit EXIT_SUCCESS \<and>
         list_all (\<lambda>e. \<not> is_codec e) (snd (header_dump w args))"
  using assms by (simp add: header_dump_def split: option.splits)

text \<open>
  C2 (the code departs from the claim): on \<open>mrbc -Bsym -H -oout.c in.rb\<close> the header dump
  derives \<open>out.h\<close> and opens it for writing; the open succeeds, and the \<open>else\<close> of line
  401 then reports that an output file is required and returns failure. \<open>dump_file\<close> is
  not called a second time, so no header is written into the file just created.
\<close>

theorem header_pass_never_dumps:
  "parse_args rd [''mrbc'', ''-Bsym'', ''-H'', ''-oout.c'', ''in.rb''] stack =
     Return 4
       (args_zero\<lparr>argc := 5, argv := [''mrbc'', ''-Bsym'', ''-H'', ''-oout.c'', ''in.rb''],
                  prog := Some ''mrbc'', initname := Some ''sym'',
                  flags := {MRB_DUMP_HEADER}, outfile := Some ''out.c''\<rparr>) [] \<and>
   header_dump sample_world
       (args_zero\<lparr>argc := 5, argv := [''mrbc'', ''-Bsym'', ''-H'', ''-oout.c'', ''in.rb''],
                  prog := Some ''mrbc'', initname := Some ''sym'',
                  flags := {MRB_DUMP_HEADER}, outfile := Some ''out.c''\<rparr>) =
     (Exit EXIT_FAILURE, [Fopen_write ''out.h'' True, Stderr Output_file_is_required])"
proof -
  have "get_outfilename ''out.c'' C_HEAD_EXT = Some ''out.h''"
    by code_simp
  then show ?thesis
    by (simp add: parse_args_def parse_loop.simps option_step_def char_at_def NUL_def Let_def
          header_dump_def sample_world_def args_zero_def)
qed

text \<open>
  Without \<open>-o\<close> the dump stage never opens a file: it tests \<open>args.outfile\<close>, which is
  still NULL, not the name derived into \<open>outfilename\<close>.
\<close>

lemma primary_dump_needs_outfile:
  "outfile args = None \<Longrightarrow>
   primary_dump w args outfilename = (Some (Exit EXIT_FAILURE), [Stderr Output_file_is_required])"
  by (simp add: primary_dump_def)

text \<open>
  With one input, no \<open>-o\<close> and no \<open>-c\<close> the start of \<open>main\<close> does derive the name:
  from the input, with the C-source extension when an embed symbol is set and the binary
  extension otherwise.
\<close>

lemma main_prologue_derives:
  assumes "mrb_open_ok w"
    and "parse_args (mrb_read_int w) av (stack\<lparr>line_size := 16\<rparr>) = Return n cfg ev"
    and "0 \<le> n" and "n + 1 = int (length av)"
    and "outfile cfg = None" and "\<not> check_syntax cfg"
    and "get_outfilename (av ! nat n) (if initname cfg \<noteq> None then C_EXT else RITEBIN_EXT) = Some name"
  shows "main_prologue w stack av = Go_on (cfg\<lparr>idx := n\<rparr>) (Some (Ptr (Heap_block 0) 0, name)) ev"
  using assms by (simp add: main_prologue_def)

text \<open>
  C1 (the code departs from the claim): on \<open>mrbc foo.rb\<close> (one input, no \<open>-o\<close>, no
  \<open>-c\<close>) the name \<open>foo.mrb\<close> is derived, the input is read and compiled, and then the
  run ends with a failure and the message that an output file is required. No file is
  opened for writing and no codec runs.
\<close>

theorem single_input_without_o_fails:
  "main_prologue sample_world stack [''mrbc'', ''foo.rb''] =
     Go_on (args_zero\<lparr>argc := 2, argv := [''mrbc'', ''foo.rb''], prog := Some ''mrbc'', idx := 1\<rparr>)
       (Some (Ptr (Heap_block 0) 0, ''foo.mrb'')) [] \<and>
   main sample_world stack [''mrbc'', ''foo.rb''] =
     (Exit EXIT_FAILURE,
      [Fopen_read ''foo.rb'' True, Fclose_in (In_file ''foo.rb''), Stderr Output_file_is_required])"
proof -
  have "get_outfilename ''foo.rb'' RITEBIN_EXT = Some ''foo.mrb''"
    by code_simp
  then show ?thesis
    by (simp add: main_def main_prologue_def parse_args_def parse_loop.simps option_step_def
          char_at_def NUL_def Let_def load_file_def primary_dump_def sample_world_def
          args_zero_def)
qed

section \<open>Properties of the chained source loader\<close>

lemma printed_harmless: "printed e \<Longrightarrow> harmless e"
  by (cases e) (simp_all add: harmless_def)

lemma list_all_printed_harmless: "list_all printed ev \<Longrightarrow> list_all harmless ev"
  by (induction ev) (simp_all add: printed_harmless)

lemma same_config_fields:
  assumes "same_config a a'"
  shows "argc a' = argc a" and "argv a' = argv a" and "outfile a' = outfile a"
    and "initname a' = initname a" and "flags a' = flags a"
    and "check_syntax a' = check_syntax a" and "line_size a' = line_size a"
proof -
  obtain i where "a' = a\<lparr>idx := i\<rparr>"
    using assms unfolding same_config_def ..
  then show "argc a' = argc a" and "argv a' = argv a" and "outfile a' = outfile a"
    and "initname a' = initname a" and "flags a' = flags a"
    and "check_syntax a' = check_syntax a" and "line_size a' = line_size a"
    by simp_all
qed

lemma same_config_refl: "same_config a a"
  by (simp add: same_config_def)

lemma same_config_idx: "same_config a (a\<lparr>idx := i\<rparr>)"
  by (simp add: same_config_def)

lemma same_config_trans: "same_config a b \<Longrightarrow> same_config b c \<Longrightarrow> same_config a c"
proof -
  assume "same_config a b" and "same_config b c"
  then obtain i j where "b = a\<lparr>idx := i\<rparr>" and "c = b\<lparr>idx := j\<rparr>"
    unfolding same_config_def by blast
  then show ?thesis
    by (simp add: same_config_def)
qed

text \<open>
  One call of the hook: only the cursor changes, by one and only while it is below the
  count; at the count the hook reports the end and leaves the cursor alone.
\<close>

lemma partial_hook_cursor:
  assumes "partial_hook w (f, a) = (r, (f', a'), ev)"
  shows "same_config a a' \<and>
         (if idx a < argc a then idx a' = idx a + 1 else idx a' = idx a \<and> r = - 1 \<and> f' = None) \<and>
         list_all harmless ev"
  using assms
  by (auto simp: partial_hook_def Let_def harmless_def same_config_def
           split: if_splits option.splits)

text \<open>Any number of calls: the cursor only grows and stays at or below the count.\<close>

lemma poll_hook_cursor:
  "poll_hook w k (f, a) = ((f', a'), ev) \<Longrightarrow>
   same_config a a' \<and> idx a \<le> idx a' \<and> (idx a \<le> argc a \<longrightarrow> idx a' \<le> argc a) \<and>
   list_all harmless ev"
proof (induction k arbitrary: f a f' a' ev)
  case 0
  then show ?case by (simp add: same_config_refl)
next
  case (Suc k)
  obtain r st ev1 where hook0: "partial_hook w (f, a) = (r, st, ev1)"
    using prod_cases3 by blast
  obtain f1 a1 where st: "st = (f1, a1)"
    by (cases st)
  obtain st2 ev2 where rest0: "poll_hook w k (f1, a1) = (st2, ev2)"
    by (cases "poll_hook w k (f1, a1)")
  obtain f2 a2 where st2: "st2 = (f2, a2)"
    by (cases st2)
  have hook: "partial_hook w (f, a) = (r, (f1, a1), ev1)"
    using hook0 st by simp
  have rest: "poll_hook w k (f1, a1) = ((f2, a2), ev2)"
    using rest0 st2 by simp
  have res: "f' = f2" "a' = a2" "ev = ev1 @ ev2"
    using Suc.prems hook rest by simp_all
  note h = partial_hook_cursor [OF hook] and p = Suc.IH [OF rest]
  have "same_config a a2"
    using h p same_config_trans by blast
  moreover have "argc a1 = argc a"
    using h same_config_fields(1) by blast
  moreover have "idx a \<le> idx a1" and "idx a \<le> argc a \<Longrightarrow> idx a1 \<le> argc a"
    using h by (auto split: if_splits)
  ultimately show ?case
    using p h res by auto
qed

text \<open>
  \<open>load_file\<close>: started below the count, it leaves the cursor above where it was only by
  its own single increment and by the hook, and never above the count.
\<close>

lemma load_file_cursor:
  assumes "load_file w a = (res, a', ev)"
  shows "same_config a a' \<and> idx a \<le> idx a' \<and> (idx a < argc a \<longrightarrow> idx a' \<le> argc a) \<and>
         (idx a + 1 = argc a \<longrightarrow> idx a' = idx a \<or> idx a' = idx a + 1) \<and>
         list_all harmless ev"
proof -
  let ?input = "argv a ! nat (idx a)"
  let ?stdin = "char_at ?input 0 = CHR ''-'' \<and> char_at ?input 1 = NUL"
  let ?a1 = "a\<lparr>idx := idx a + 1\<rparr>"
  let ?infile = "if ?stdin then Stdin else In_file ?input"
  show ?thesis
  proof (cases "\<not> ?stdin \<and> \<not> readable w ?input")
    case True
    then show ?thesis
      using assms by (auto simp: load_file_def Let_def harmless_def same_config_refl)
  next
    case opened: False
    show ?thesis
    proof (cases "idx a + 1 < argc a")
      case False
      then show ?thesis
        using assms opened by (auto simp: load_file_def Let_def harmless_def same_config_idx)
    next
      case True
      obtain st2 ev2 where poll0: "poll_hook w (hook_polls w) (Some ?infile, ?a1) = (st2, ev2)"
        by (cases "poll_hook w (hook_polls w) (Some ?infile, ?a1)")
      obtain f2 a2 where st2: "st2 = (f2, a2)"
        by (cases st2)
      have poll: "poll_hook w (hook_polls w) (Some ?infile, ?a1) = ((f2, a2), ev2)"
        using poll0 st2 by simp
      note p = poll_hook_cursor [OF poll]
      have a': "a' = a2" and ev: "ev = (if ?stdin then [] else [Fopen_read ?input True]) @ ev2"
        using assms opened True poll by (auto simp: load_file_def Let_def)
      have "same_config a a2"
        using p same_config_idx [of a "idx a + 1"] same_config_trans by blast
      moreover have "idx a \<le> idx a2" and "idx a2 \<le> argc a"
        using p True by auto
      moreover have "list_all harmless ev"
        using p ev by (simp add: harmless_def)
      ultimately show ?thesis
        using a' True by simp
    qed
  qed
qed

text \<open>Where \<open>main\<close> starts the loader: at the first input, which exists.\<close>

lemma main_prologue_cursor:
  assumes "main_prologue w stack av = Go_on args fn ev"
  shows "0 < idx args \<and> idx args < argc args \<and> argc args = int (length av)"
proof -
  obtain n cfg where parse: "parse_args (mrb_read_int w) av (stack\<lparr>line_size := 16\<rparr>) = Return n cfg ev"
    and n: "0 \<le> n" "n \<noteq> int (length av)" and args: "args = cfg\<lparr>idx := n\<rparr>"
    and single: "outfile cfg = None \<and> \<not> check_syntax cfg \<longrightarrow> n + 1 = int (length av)"
    using assms
    by (auto simp: main_prologue_def split: if_splits parse_result.splits)
  have frame: "argc cfg = int (length av)"
    using parse_args_frame [of "mrb_read_int w" av "stack\<lparr>line_size := 16\<rparr>"] parse by simp
  have range: "1 \<le> n \<and> (av \<noteq> [] \<longrightarrow> n \<le> int (length av))"
    using parse_args_index [OF parse] n by auto
  have "av \<noteq> []"
  proof
    assume empty: "av = []"
    then have "parse_args (mrb_read_int w) av (stack\<lparr>line_size := 16\<rparr>) =
               Return 1 (args_zero\<lparr>argc := 0, argv := [], prog := None\<rparr>) []"
      by (simp add: parse_args_def parse_loop.simps)
    then show False
      using parse single empty n by (auto simp: args_zero_def)
  qed
  then show ?thesis
    using range n frame args by auto
qed

text \<open>
  Exactly what the hook leaves in the configuration: the cursor moved by one while it was
  below the count, nothing touched otherwise. After \<open>k\<close> polls the cursor has moved by
  \<open>k\<close>, but stops at the count.
\<close>

lemma partial_hook_exact:
  "snd (fst (snd (partial_hook w (f, a)))) = (if idx a < argc a then a\<lparr>idx := idx a + 1\<rparr> else a)"
  by (simp add: partial_hook_def Let_def)

lemma poll_hook_exact:
  "idx a \<le> argc a \<Longrightarrow>
   snd (fst (poll_hook w k (f, a))) = a\<lparr>idx := min (argc a) (idx a + int k)\<rparr>"
proof (induction k arbitrary: f a)
  case 0
  then show ?case by simp
next
  case (Suc k)
  obtain r st ev1 where hook0: "partial_hook w (f, a) = (r, st, ev1)"
    using prod_cases3 by blast
  obtain f1 a1 where st: "st = (f1, a1)"
    by (cases st)
  have a1: "a1 = (if idx a < argc a then a\<lparr>idx := idx a + 1\<rparr> else a)"
    using partial_hook_exact [of w f a] hook0 st by simp
  have le: "idx a1 \<le> argc a1"
    using a1 Suc.prems by simp
  have "snd (fst (poll_hook w (Suc k) (f, a))) = snd (fst (poll_hook w k (f1, a1)))"
    using hook0 st by (simp split: prod.splits)
  also have "\<dots> = a1\<lparr>idx := min (argc a1) (idx a1 + int k)\<rparr>"
    using Suc.IH [OF le] .
  also have "\<dots> = a\<lparr>idx := min (argc a) (idx a + int (Suc k))\<rparr>"
    using a1 Suc.prems by (auto simp: min_def)
  finally show ?case .
qed

text \<open>
  Exactly what \<open>load_file\<close> does to the cursor. When the first input cannot be opened it
  returns nil and the cursor has not moved. Otherwise it advances the cursor once, by its
  own increment; only when inputs remain after that (the hook is installed) do the polls of
  the parser move it further, up to the count.
\<close>

lemma load_file_failed_open:
  "first_input_fails w a \<Longrightarrow>
   load_file w a =
     (Nil_value, a,
      [Fopen_read (argv a ! nat (idx a)) False,
       Stderr (Cannot_open_program_file (argv a ! nat (idx a)))])"
  by (simp add: load_file_def first_input_fails_def Let_def)

lemma load_file_opened:
  assumes "\<not> first_input_fails w a" and "idx a < argc a"
  shows "fst (load_file w a) = (if load_ok w then Loaded else Nil_value) \<and>
         fst (snd (load_file w a)) = a\<lparr>idx := min (argc a) (idx a + 1 + int (hook_polls w))\<rparr>"
proof (cases "idx a + 1 < argc a")
  case True
  let ?input = "argv a ! nat (idx a)"
  let ?infile = "if char_at ?input 0 = CHR ''-'' \<and> char_at ?input 1 = NUL then Stdin else In_file ?input"
  have "snd (fst (poll_hook w (hook_polls w) (Some ?infile, a\<lparr>idx := idx a + 1\<rparr>))) =
          (a\<lparr>idx := idx a + 1\<rparr>)\<lparr>idx := min (argc (a\<lparr>idx := idx a + 1\<rparr>))
                                          (idx (a\<lparr>idx := idx a + 1\<rparr>) + int (hook_polls w))\<rparr>"
    using True by (intro poll_hook_exact) simp
  then show ?thesis
    using assms True by (auto simp: load_file_def first_input_fails_def Let_def)
next
  case False
  then have "min (argc a) (idx a + 1 + int (hook_polls w)) = idx a + 1"
    using assms(2) by simp
  then show ?thesis
    using assms False by (auto simp: load_file_def first_input_fails_def Let_def)
qed

text \<open>
  What \<open>main\<close> hands to the loader: the configuration \<open>parse_args\<close> returned, with the
  cursor set to the index \<open>parse_args\<close> returned.
\<close>

lemma main_prologue_start:
  assumes "main_prologue w stack av = Go_on args fn ev"
  shows "parse_args (mrb_read_int w) av stack = Return (idx args) (args\<lparr>idx := 0\<rparr>) ev"
proof -
  obtain n cfg where parse: "parse_args (mrb_read_int w) av (stack\<lparr>line_size := 16\<rparr>) = Return n cfg ev"
    and args: "args = cfg\<lparr>idx := n\<rparr>"
    using assms
    by (auto simp: main_prologue_def split: if_splits parse_result.splits)
  have "idx cfg = 0"
    using parse_args_frame [of "mrb_read_int w" av "stack\<lparr>line_size := 16\<rparr>"] parse by simp
  then have "cfg = args\<lparr>idx := 0\<rparr>" and "n = idx args"
    using args by simp_all
  then show ?thesis
    using parse by (simp add: parse_args_def)
qed

text \<open>
  C9: the cursor \<open>idx\<close> never exceeds the count \<open>argc\<close>. The hook keeps the count, moves
  the cursor by one only while it is strictly below the count, and otherwise signals the end
  of input without moving it; so after \<open>k\<close> polls the cursor stands at its old value plus
  \<open>k\<close>, or at the count if that is less. \<open>load_file\<close>, started below the count, leaves
  the cursor where it was and returns nil when the first input cannot be opened; otherwise
  it advances the cursor once (to exactly one more when the parser does not poll the hook
  or no input remains), the polls of the installed hook move it on, and it ends at or below
  the count. \<open>main\<close> starts \<open>load_file\<close> with the cursor at the index \<open>parse_args\<close>
  returned, which is below the count; and before that, \<open>parse_args\<close> leaves the cursor at
  0 and the count at the length of the argument vector.
\<close>

theorem cursor_never_exceeds_count:
  "(idx a \<le> argc a \<longrightarrow>
      (case partial_hook w (f, a) of
         (r, (f', a'), ev) \<Rightarrow>
           argc a' = argc a \<and> idx a' \<le> argc a' \<and>
           (if idx a < argc a then idx a' = idx a + 1 \<and> a' = a\<lparr>idx := idx a + 1\<rparr>
            else idx a' = idx a \<and> a' = a \<and> r = - 1 \<and> f' = None))) \<and>
   (idx a \<le> argc a \<longrightarrow>
      (\<forall>k. case poll_hook w k (f, a) of
              ((f', a'), ev) \<Rightarrow>
                argc a' = argc a \<and> idx a \<le> idx a' \<and> idx a' \<le> argc a' \<and>
                a' = a\<lparr>idx := min (argc a) (idx a + int k)\<rparr>)) \<and>
   (idx a < argc a \<longrightarrow>
      (case load_file w a of
         (res, a', ev) \<Rightarrow>
           argc a' = argc a \<and> idx a \<le> idx a' \<and> idx a' \<le> argc a' \<and>
           (if first_input_fails w a
            then res = Nil_value \<and> a' = a \<and>
                 ev = [Fopen_read (argv a ! nat (idx a)) False,
                       Stderr (Cannot_open_program_file (argv a ! nat (idx a)))]
            else res = (if load_ok w then Loaded else Nil_value) \<and>
                 a' = a\<lparr>idx := min (argc a) (idx a + 1 + int (hook_polls w))\<rparr> \<and>
                 idx a + 1 \<le> idx a' \<and>
                 (hook_polls w = 0 \<or> idx a + 1 = argc a \<longrightarrow> idx a' = idx a + 1)))) \<and>
   (\<forall>stack av args fn ev.
      main_prologue w stack av = Go_on args fn ev \<longrightarrow>
        idx args < argc args \<and> argc args = int (length av) \<and>
        parse_args (mrb_read_int w) av stack = Return (idx args) (args\<lparr>idx := 0\<rparr>) ev) \<and>
   (\<forall>rd av stack.
      idx (result_args (parse_args rd av stack)) = 0 \<and>
      argc (result_args (parse_args rd av stack)) = int (length av))"
proof (intro conjI impI allI)
  assume le: "idx a \<le> argc a"
  obtain r st ev where hook0: "partial_hook w (f, a) = (r, st, ev)"
    using prod_cases3 by blast
  obtain f' a' where st: "st = (f', a')"
    by (cases st)
  have hook: "partial_hook w (f, a) = (r, (f', a'), ev)"
    using hook0 st by simp
  have "argc a' = argc a"
    using partial_hook_cursor [OF hook] same_config_fields(1) by blast
  moreover have "a' = (if idx a < argc a then a\<lparr>idx := idx a + 1\<rparr> else a)"
    using partial_hook_exact [of w f a] hook by simp
  ultimately show "case partial_hook w (f, a) of
         (r, (f', a'), ev) \<Rightarrow>
           argc a' = argc a \<and> idx a' \<le> argc a' \<and>
           (if idx a < argc a then idx a' = idx a + 1 \<and> a' = a\<lparr>idx := idx a + 1\<rparr>
            else idx a' = idx a \<and> a' = a \<and> r = - 1 \<and> f' = None)"
    using partial_hook_cursor [OF hook] le hook by (auto split: if_splits)
next
  fix k
  assume le: "idx a \<le> argc a"
  obtain st ev where poll0: "poll_hook w k (f, a) = (st, ev)"
    by (cases "poll_hook w k (f, a)")
  obtain f' a' where st: "st = (f', a')"
    by (cases st)
  have poll: "poll_hook w k (f, a) = ((f', a'), ev)"
    using poll0 st by simp
  have "argc a' = argc a"
    using poll_hook_cursor [OF poll] same_config_fields(1) by blast
  moreover have "a' = a\<lparr>idx := min (argc a) (idx a + int k)\<rparr>"
    using poll_hook_exact [OF le, of w k f] poll by simp
  ultimately show "case poll_hook w k (f, a) of
              ((f', a'), ev) \<Rightarrow>
                argc a' = argc a \<and> idx a \<le> idx a' \<and> idx a' \<le> argc a' \<and>
                a' = a\<lparr>idx := min (argc a) (idx a + int k)\<rparr>"
    using poll_hook_cursor [OF poll] le poll by simp
next
  assume lt: "idx a < argc a"
  obtain res a' ev where load: "load_file w a = (res, a', ev)"
    using prod_cases3 by blast
  have frame: "argc a' = argc a"
    using load_file_cursor [OF load] same_config_fields(1) by blast
  have bounds: "idx a \<le> idx a'" "idx a' \<le> argc a'"
    using load_file_cursor [OF load] lt frame by simp_all
  have detail: "if first_input_fails w a
            then res = Nil_value \<and> a' = a \<and>
                 ev = [Fopen_read (argv a ! nat (idx a)) False,
                       Stderr (Cannot_open_program_file (argv a ! nat (idx a)))]
            else res = (if load_ok w then Loaded else Nil_value) \<and>
                 a' = a\<lparr>idx := min (argc a) (idx a + 1 + int (hook_polls w))\<rparr> \<and>
                 idx a + 1 \<le> idx a' \<and>
                 (hook_polls w = 0 \<or> idx a + 1 = argc a \<longrightarrow> idx a' = idx a + 1)"
  proof (cases "first_input_fails w a")
    case True
    then show ?thesis
      using load_file_failed_open [OF True] load by simp
  next
    case False
    have exact: "res = (if load_ok w then Loaded else Nil_value)"
      "a' = a\<lparr>idx := min (argc a) (idx a + 1 + int (hook_polls w))\<rparr>"
      using load_file_opened [OF False lt] load by simp_all
    have "idx a' = min (argc a) (idx a + 1 + int (hook_polls w))"
      by (subst exact(2)) simp
    then show ?thesis
      using False exact lt by auto
  qed
  show "case load_file w a of
         (res, a', ev) \<Rightarrow>
           argc a' = argc a \<and> idx a \<le> idx a' \<and> idx a' \<le> argc a' \<and>
           (if first_input_fails w a
            then res = Nil_value \<and> a' = a \<and>
                 ev = [Fopen_read (argv a ! nat (idx a)) False,
                       Stderr (Cannot_open_program_file (argv a ! nat (idx a)))]
            else res = (if load_ok w then Loaded else Nil_value) \<and>
                 a' = a\<lparr>idx := min (argc a) (idx a + 1 + int (hook_polls w))\<rparr> \<and>
                 idx a + 1 \<le> idx a' \<and>
                 (hook_polls w = 0 \<or> idx a + 1 = argc a \<longrightarrow> idx a' = idx a + 1))"
    unfolding load using frame bounds detail by simp
next
  fix stack av args fn ev
  assume go: "main_prologue w stack av = Go_on args fn ev"
  show "idx args < argc args" and "argc args = int (length av)"
    using main_prologue_cursor [OF go] by simp_all
  show "parse_args (mrb_read_int w) av stack = Return (idx args) (args\<lparr>idx := 0\<rparr>) ev"
    using go by (rule main_prologue_start)
next
  fix rd :: "string \<Rightarrow> int option" and av :: "string list" and stack :: mrbc_args
  show "idx (result_args (parse_args rd av stack)) = 0"
    and "argc (result_args (parse_args rd av stack)) = int (length av)"
    using parse_args_frame [of rd av stack] by simp_all
qed

theorem cursor_never_exceeds_count_witness:
  "partial_hook sample_world
       (None, args_zero\<lparr>argv := [''mrbc'', ''a.rb'', ''b.rb''], argc := 3, idx := 2\<rparr>) =
     (0, (Some (In_file ''b.rb''),
          args_zero\<lparr>argv := [''mrbc'', ''a.rb'', ''b.rb''], argc := 3, idx := 3\<rparr>),
      [Fopen_read ''b.rb'' True]) \<and>
   load_file sample_world (args_zero\<lparr>argv := [''mrbc'', ''a.rb'', ''b.rb''], argc := 3, idx := 1\<rparr>) =
     (Loaded, args_zero\<lparr>argv := [''mrbc'', ''a.rb'', ''b.rb''], argc := 3, idx := 3\<rparr>,
      [Fopen_read ''a.rb'' True, Fclose_in (In_file ''a.rb''), Fopen_read ''b.rb'' True,
       Fclose_in (In_file ''b.rb'')]) \<and>
   idx (args_zero\<lparr>argv := [''mrbc'', ''a.rb'', ''b.rb''], argc := 3, idx := 3\<rparr>)
     \<le> argc (args_zero\<lparr>argv := [''mrbc'', ''a.rb'', ''b.rb''], argc := 3, idx := 3\<rparr>) \<and>
   load_file (sample_world\<lparr>hook_polls := 0\<rparr>)
       (args_zero\<lparr>argv := [''mrbc'', ''a.rb'', ''b.rb''], argc := 3, idx := 1\<rparr>) =
     (Loaded, args_zero\<lparr>argv := [''mrbc'', ''a.rb'', ''b.rb''], argc := 3, idx := 2\<rparr>,
      [Fopen_read ''a.rb'' True]) \<and>
   load_file (sample_world\<lparr>readable := (\<lambda>f. False)\<rparr>)
       (args_zero\<lparr>argv := [''mrbc'', ''a.rb'', ''b.rb''], argc := 3, idx := 1\<rparr>) =
     (Nil_value, args_zero\<lparr>argv := [''mrbc'', ''a.rb'', ''b.rb''], argc := 3, idx := 1\<rparr>,
      [Fopen_read ''a.rb'' False, Stderr (Cannot_open_program_file ''a.rb'')]) \<and>
   main_prologue sample_world args_zero [''mrbc'', ''-c'', ''a.rb'', ''b.rb''] =
     Go_on (args_zero\<lparr>argc := 4, argv := [''mrbc'', ''-c'', ''a.rb'', ''b.rb''],
                      prog := Some ''mrbc'', check_syntax := True, idx := 2\<rparr>) None [] \<and>
   idx (args_zero\<lparr>argc := 4, argv := [''mrbc'', ''-c'', ''a.rb'', ''b.rb''],
                  prog := Some ''mrbc'', check_syntax := True, idx := 2\<rparr>) < 4"
proof -
  let ?a = "args_zero\<lparr>argv := [''mrbc'', ''a.rb'', ''b.rb''], argc := 3, idx := 1\<rparr>"
  let ?b = "args_zero\<lparr>argv := [''mrbc'', ''a.rb'', ''b.rb''], argc := 3, idx := 2\<rparr>"
  let ?c = "args_zero\<lparr>argv := [''mrbc'', ''a.rb'', ''b.rb''], argc := 3, idx := 3\<rparr>"
  let ?g = "args_zero\<lparr>argc := 4, argv := [''mrbc'', ''-c'', ''a.rb'', ''b.rb''],
                      prog := Some ''mrbc'', check_syntax := True, idx := 2\<rparr>"
  let ?quiet = "sample_world\<lparr>hook_polls := 0\<rparr>"
  let ?closed = "sample_world\<lparr>readable := (\<lambda>f. False)\<rparr>"
  have hook: "partial_hook sample_world (None, ?b) =
                (0, (Some (In_file ''b.rb''), ?c), [Fopen_read ''b.rb'' True])"
    by code_simp
  have run: "load_file sample_world ?a =
     (Loaded, ?c,
      [Fopen_read ''a.rb'' True, Fclose_in (In_file ''a.rb''), Fopen_read ''b.rb'' True,
       Fclose_in (In_file ''b.rb'')])"
    by code_simp
  have events: "snd (snd (load_file ?quiet ?a)) = [Fopen_read ''a.rb'' True]"
    by code_simp
  have go: "main_prologue sample_world args_zero [''mrbc'', ''-c'', ''a.rb'', ''b.rb''] =
              Go_on ?g None []"
    by code_simp
  have le: "idx ?b \<le> argc ?b" and lt: "idx ?a < argc ?a"
    by simp_all
  have opens: "\<not> first_input_fails sample_world ?a" "\<not> first_input_fails ?quiet ?a"
    and fails: "first_input_fails ?closed ?a"
    by (simp_all add: first_input_fails_def sample_world_def char_at_def args_zero_def)
  have "case partial_hook sample_world (None, ?b) of
          (r, (f', a'), ev) \<Rightarrow>
            argc a' = argc ?b \<and> idx a' \<le> argc a' \<and>
            (if idx ?b < argc ?b then idx a' = idx ?b + 1 \<and> a' = ?b\<lparr>idx := idx ?b + 1\<rparr>
             else idx a' = idx ?b \<and> a' = ?b \<and> r = - 1 \<and> f' = None)"
    using cursor_never_exceeds_count [of ?b sample_world None, THEN conjunct1, THEN mp, OF le] .
  then have one: "idx ?c \<le> argc ?c"
    unfolding hook by simp
  have two: "idx ?c \<le> argc ?c"
    using cursor_never_exceeds_count [where a = ?a and w = "sample_world",
        THEN conjunct2, THEN conjunct2, THEN conjunct1, THEN mp, OF lt] unfolding run by simp
  have "fst (load_file ?quiet ?a) = Loaded \<and> fst (snd (load_file ?quiet ?a)) = ?b"
    using cursor_never_exceeds_count [where a = ?a and w = "?quiet",
        THEN conjunct2, THEN conjunct2, THEN conjunct1, THEN mp, OF lt] opens(2)
    by (cases "load_file ?quiet ?a") (simp add: sample_world_def)
  then have once: "load_file ?quiet ?a = (Loaded, ?b, [Fopen_read ''a.rb'' True])"
    using events by (cases "load_file ?quiet ?a") simp
  have "load_file ?closed ?a =
          (Nil_value, ?a, [Fopen_read (argv ?a ! nat (idx ?a)) False,
                           Stderr (Cannot_open_program_file (argv ?a ! nat (idx ?a)))])"
    using cursor_never_exceeds_count [where a = ?a and w = "?closed",
        THEN conjunct2, THEN conjunct2, THEN conjunct1, THEN mp, OF lt] fails
    by (cases "load_file ?closed ?a") simp
  then have refused: "load_file ?closed ?a =
          (Nil_value, ?a, [Fopen_read ''a.rb'' False, Stderr (Cannot_open_program_file ''a.rb'')])"
    by simp
  have "idx ?g < argc ?g \<and> argc ?g = int (length [''mrbc'', ''-c'', ''a.rb'', ''b.rb'']) \<and>
        parse_args (mrb_read_int sample_world) [''mrbc'', ''-c'', ''a.rb'', ''b.rb''] args_zero =
          Return (idx ?g) (?g\<lparr>idx := 0\<rparr>) []"
    using cursor_never_exceeds_count [of ?a sample_world None,
        THEN conjunct2, THEN conjunct2, THEN conjunct2, THEN conjunct1, rule_format, OF go] .
  then have three: "idx ?g < 4"
    by simp
  show ?thesis
    using hook run go one three once refused by simp
qed

section \<open>Properties of the whole run\<close>

lemma parse_args_record_ignored: "parse_args rd av stack = parse_args rd av stack'"
  by (simp add: parse_args_def)

text \<open>
  How the start of \<open>main\<close> can end: with nothing but printed lines so far; a success only
  when \<open>parse_args\<close> left through \<open>--version\<close> or \<open>--copyright\<close>; and, when the run goes
  on, with the configuration \<open>parse_args\<close> returned and the cursor at the first input.
\<close>

lemma main_prologue_Ended:
  assumes "main_prologue w stack av = Ended oc ev"
  shows "list_all printed ev \<and>
         (oc = Exit EXIT_FAILURE \<or>
          (oc = Exit EXIT_SUCCESS \<and>
           (\<exists>cfg. parse_args (mrb_read_int w) av stack = Exit_success cfg ev)))"
proof (cases "mrb_open_ok w")
  case False
  then show ?thesis
    using assms by (auto simp: main_prologue_def)
next
  case True
  note pr = parse_args_prints [of "mrb_read_int w" av "stack\<lparr>line_size := 16\<rparr>"]
  show ?thesis
  proof (cases "parse_args (mrb_read_int w) av (stack\<lparr>line_size := 16\<rparr>)")
    case (Return n cfg ev0)
    then show ?thesis
      using assms True pr by (auto simp: main_prologue_def split: if_splits)
  next
    case (Exit_success cfg ev0)
    then show ?thesis
      using assms True pr parse_args_record_ignored [of "mrb_read_int w" av stack "stack\<lparr>line_size := 16\<rparr>"]
      by (auto simp: main_prologue_def)
  qed
qed

lemma main_prologue_Go_on:
  assumes "main_prologue w stack av = Go_on args fn ev"
  shows "\<exists>n cfg. parse_args (mrb_read_int w) av stack = Return n cfg ev \<and> 0 \<le> n \<and>
           args = cfg\<lparr>idx := n\<rparr> \<and> list_all printed ev"
proof (cases "parse_args (mrb_read_int w) av (stack\<lparr>line_size := 16\<rparr>)")
  case (Return n cfg ev0)
  then show ?thesis
    using assms parse_args_prints [of "mrb_read_int w" av "stack\<lparr>line_size := 16\<rparr>"]
      parse_args_record_ignored [of "mrb_read_int w" av stack "stack\<lparr>line_size := 16\<rparr>"]
    by (auto simp: main_prologue_def split: if_splits)
next
  case (Exit_success cfg ev0)
  then show ?thesis
    using assms by (auto simp: main_prologue_def split: if_splits)
qed

text \<open>
  The rest of \<open>main\<close> when no output path is set or only the syntax is checked: the load
  fails, or the syntax check ends the run with success, or the dump stage fails at its
  first test (line 369). No file is opened for writing and no codec runs.
\<close>

lemma main_after_prologue:
  assumes go: "main_prologue w stack av = Go_on args fn ev"
    and plain: "outfile args = None \<or> check_syntax args"
    and quiet: "list_all harmless ev"
  shows "list_all harmless (snd (main w stack av)) \<and>
         (fst (main w stack av) = Exit EXIT_FAILURE \<or>
          (fst (main w stack av) = Exit EXIT_SUCCESS \<and> check_syntax args))"
proof -
  obtain res a' ev2 where load: "load_file w args = (res, a', ev2)"
    using prod_cases3 by blast
  note l = load_file_cursor [OF load]
  have same: "check_syntax a' = check_syntax args" "outfile a' = outfile args"
    using l same_config_fields by blast+
  have ev2: "list_all harmless ev2"
    using l by simp
  show ?thesis
  proof (cases "res = Nil_value \<or> check_syntax args")
    case True
    then show ?thesis
      using go load same ev2 quiet by (auto simp: main_def harmless_def)
  next
    case False
    then have "outfile a' = None"
      using plain same by simp
    then have "primary_dump w a' fn = (Some (Exit EXIT_FAILURE), [Stderr Output_file_is_required])"
      by (simp add: primary_dump_needs_outfile)
    then show ?thesis
      using go load same ev2 quiet False by (auto simp: main_def harmless_def)
  qed
qed

text \<open>
  So a run without \<open>-o\<close>, or with \<open>-c\<close>, opens no file for writing and runs no codec, and
  it exits with success only through a syntax check.
\<close>

lemma main_without_dump:
  assumes "parse_args (mrb_read_int w) av stack = Return n cfg ev"
    and "outfile cfg = None \<or> check_syntax cfg"
  shows "list_all harmless (snd (main w stack av)) \<and>
         (fst (main w stack av) = Exit EXIT_FAILURE \<or>
          (fst (main w stack av) = Exit EXIT_SUCCESS \<and> check_syntax cfg))"
proof (cases "main_prologue w stack av")
  case (Ended oc ev')
  then have "main w stack av = (oc, ev')"
    by (simp add: main_def)
  then show ?thesis
    using main_prologue_Ended [OF Ended] list_all_printed_harmless [of ev'] assms(1) by auto
next
  case (Go_on args fn ev')
  obtain n' cfg' where cfg: "parse_args (mrb_read_int w) av stack = Return n' cfg' ev'"
    "args = cfg'\<lparr>idx := n'\<rparr>" "list_all printed ev'"
    using main_prologue_Go_on [OF Go_on] by blast
  have same: "cfg' = cfg"
    using cfg(1) assms(1) by simp
  have "outfile args = None \<or> check_syntax args" and "list_all harmless ev'"
    using cfg same assms(2) list_all_printed_harmless by auto
  from main_after_prologue [OF Go_on this] show ?thesis
    using cfg(2) same by simp
qed

text \<open>
  A run with \<open>-c\<close>, whatever the other options: after parsing it only loads. It ends with
  success and the line \<open>Syntax OK\<close> when the loader returns a program, and with failure
  when the loader returns nil; the dump stage is not entered.
\<close>

lemma main_check_syntax:
  assumes "mrb_open_ok w"
    and "parse_args (mrb_read_int w) av stack = Return n cfg ev"
    and "0 \<le> n" and "n \<noteq> int (length av)" and "check_syntax cfg"
  shows "main w stack av =
           (case load_file w (cfg\<lparr>idx := n\<rparr>) of
              (res, a', ev2) \<Rightarrow>
                if res = Nil_value then (Exit EXIT_FAILURE, ev @ ev2)
                else (Exit EXIT_SUCCESS, ev @ ev2 @ [Syntax_OK (av ! nat n)]))"
proof -
  have parse: "parse_args (mrb_read_int w) av (stack\<lparr>line_size := 16\<rparr>) = Return n cfg ev"
    using assms(2) parse_args_record_ignored [of "mrb_read_int w" av stack "stack\<lparr>line_size := 16\<rparr>"]
    by simp
  have go: "main_prologue w stack av = Go_on (cfg\<lparr>idx := n\<rparr>) (unassigned_outfilename w) ev"
    using assms(1,3-5) parse by (simp add: main_prologue_def)
  obtain res a' ev2 where load: "load_file w (cfg\<lparr>idx := n\<rparr>) = (res, a', ev2)"
    using prod_cases3 by blast
  have "check_syntax a' = check_syntax (cfg\<lparr>idx := n\<rparr>)"
    using load_file_cursor [OF load] same_config_fields(6) by blast
  then have "check_syntax a'"
    using assms(5) by simp
  then show ?thesis
    using go load by (simp add: main_def)
qed

text \<open>And the loader returns a program exactly when the first input opens and the inputs compile.\<close>

lemma load_file_result:
  "fst (load_file w a) = (if first_input_fails w a \<or> \<not> load_ok w then Nil_value else Loaded)"
  by (auto simp: load_file_def first_input_fails_def Let_def)

lemma main_check_syntax_exit:
  assumes "parse_args (mrb_read_int w) av stack = Return n cfg ev"
    and "0 \<le> n" and "n \<noteq> int (length av)" and "check_syntax cfg"
  shows "fst (main w stack av) =
           (if mrb_open_ok w \<and> \<not> first_input_fails w (cfg\<lparr>idx := n\<rparr>) \<and> load_ok w
            then Exit EXIT_SUCCESS else Exit EXIT_FAILURE)"
proof (cases "mrb_open_ok w")
  case False
  then show ?thesis
    by (simp add: main_def main_prologue_def)
next
  case True
  obtain res a' ev2 where load: "load_file w (cfg\<lparr>idx := n\<rparr>) = (res, a', ev2)"
    using prod_cases3 by blast
  have "res = (if first_input_fails w (cfg\<lparr>idx := n\<rparr>) \<or> \<not> load_ok w then Nil_value else Loaded)"
    using load_file_result [of w "cfg\<lparr>idx := n\<rparr>"] load by simp
  then show ?thesis
    using main_check_syntax [OF True assms] load True by auto
qed

text \<open>
  C7, as the code has it: for every invocation with two or more positional inputs and no
  \<open>-o\<close> (option parsing returns the index \<open>n\<close> of the first input, at least two elements
  follow from there, and no output path is set), no file is opened for writing. When \<open>-c\<close>
  is not given either, the run exits with failure right after parsing, before any input is
  opened. With \<open>-c\<close> the run goes on to the syntax check, and its exit status follows
  that check: success exactly when the interpreter state exists, the first input can be
  opened and the inputs compile, failure otherwise.
\<close>

theorem multiple_inputs_need_output:
  assumes "parse_args (mrb_read_int w) av stack = Return n cfg ev"
    and "0 \<le> n" and "n + 2 \<le> int (length av)" and "outfile cfg = None"
  shows "list_all (\<lambda>e. \<not> opens_output e) (snd (main w stack av)) \<and>
         (\<not> check_syntax cfg \<longrightarrow>
            main w stack av =
              (Exit EXIT_FAILURE,
               if mrb_open_ok w then ev @ [Stderr Output_file_should_be_specified]
               else [Stderr Invalid_mrb_state])) \<and>
         (check_syntax cfg \<longrightarrow>
            fst (main w stack av) =
              (if mrb_open_ok w \<and> \<not> first_input_fails w (cfg\<lparr>idx := n\<rparr>) \<and> load_ok w
               then Exit EXIT_SUCCESS else Exit EXIT_FAILURE) \<and>
            (mrb_open_ok w \<longrightarrow>
               main w stack av =
                 (case load_file w (cfg\<lparr>idx := n\<rparr>) of
                    (res, a', ev2) \<Rightarrow>
                      if res = Nil_value then (Exit EXIT_FAILURE, ev @ ev2)
                      else (Exit EXIT_SUCCESS, ev @ ev2 @ [Syntax_OK (av ! nat n)]))))"
proof -
  have "list_all harmless (snd (main w stack av))"
    using main_without_dump [OF assms(1)] assms(4) by simp
  then have quiet: "list_all (\<lambda>e. \<not> opens_output e) (snd (main w stack av))"
    by (simp add: list_all_iff harmless_def)
  have parse: "parse_args (mrb_read_int w) av (stack\<lparr>line_size := 16\<rparr>) = Return n cfg ev"
    using assms(1) parse_args_record_ignored [of "mrb_read_int w" av stack "stack\<lparr>line_size := 16\<rparr>"] by simp
  have "main_prologue w stack av =
          Ended (Exit EXIT_FAILURE)
            (if mrb_open_ok w then ev @ [Stderr Output_file_should_be_specified]
             else [Stderr Invalid_mrb_state])"
    if "\<not> check_syntax cfg"
    using that parse assms(2-4) by (simp add: main_prologue_def)
  then have plain: "\<not> check_syntax cfg \<longrightarrow>
            main w stack av =
              (Exit EXIT_FAILURE,
               if mrb_open_ok w then ev @ [Stderr Output_file_should_be_specified]
               else [Stderr Invalid_mrb_state])"
    by (simp add: main_def)
  have n: "n \<noteq> int (length av)"
    using assms(3) by simp
  have check: "check_syntax cfg \<longrightarrow>
            fst (main w stack av) =
              (if mrb_open_ok w \<and> \<not> first_input_fails w (cfg\<lparr>idx := n\<rparr>) \<and> load_ok w
               then Exit EXIT_SUCCESS else Exit EXIT_FAILURE) \<and>
            (mrb_open_ok w \<longrightarrow>
               main w stack av =
                 (case load_file w (cfg\<lparr>idx := n\<rparr>) of
                    (res, a', ev2) \<Rightarrow>
                      if res = Nil_value then (Exit EXIT_FAILURE, ev @ ev2)
                      else (Exit EXIT_SUCCESS, ev @ ev2 @ [Syntax_OK (av ! nat n)])))"
    using main_check_syntax_exit [OF assms(1,2) n] main_check_syntax [OF _ assms(1,2) n]
    by blast
  show ?thesis
    using quiet plain check by blast
qed

theorem multiple_inputs_need_output_witness:
  "parse_args (mrb_read_int sample_world) [''mrbc'', ''a.rb'', ''b.rb''] args_zero =
     Return 1 (args_zero\<lparr>argc := 3, argv := [''mrbc'', ''a.rb'', ''b.rb''], prog := Some ''mrbc''\<rparr>) [] \<and>
   main sample_world args_zero [''mrbc'', ''a.rb'', ''b.rb''] =
     (Exit EXIT_FAILURE, [Stderr Output_file_should_be_specified]) \<and>
   parse_args (mrb_read_int sample_world) [''mrbc'', ''-c'', ''a.rb'', ''b.rb''] args_zero =
     Return 2
       (args_zero\<lparr>argc := 4, argv := [''mrbc'', ''-c'', ''a.rb'', ''b.rb''],
                  prog := Some ''mrbc'', check_syntax := True\<rparr>) [] \<and>
   fst (main sample_world args_zero [''mrbc'', ''-c'', ''a.rb'', ''b.rb'']) = Exit EXIT_SUCCESS \<and>
   fst (main (sample_world\<lparr>load_ok := False\<rparr>) args_zero [''mrbc'', ''-c'', ''a.rb'', ''b.rb''])
     = Exit EXIT_FAILURE"
proof -
  let ?av = "[''mrbc'', ''a.rb'', ''b.rb'']"
  let ?cfg = "args_zero\<lparr>argc := 3, argv := ?av, prog := Some ''mrbc''\<rparr>"
  let ?cv = "[''mrbc'', ''-c'', ''a.rb'', ''b.rb'']"
  let ?ccfg = "args_zero\<lparr>argc := 4, argv := ?cv, prog := Some ''mrbc'', check_syntax := True\<rparr>"
  let ?bad = "sample_world\<lparr>load_ok := False\<rparr>"
  have parse: "parse_args (mrb_read_int sample_world) ?av args_zero = Return 1 ?cfg []"
    by (simp add: parse_args_def parse_loop.simps option_step_def char_at_def Let_def)
  have cparse: "parse_args (mrb_read_int sample_world) ?cv args_zero = Return 2 ?ccfg []"
    by (simp add: parse_args_def parse_loop.simps option_step_def char_at_def Let_def args_zero_def)
  have cparse': "parse_args (mrb_read_int ?bad) ?cv args_zero = Return 2 ?ccfg []"
    using cparse by (simp add: parse_args_def)
  have opens: "\<not> first_input_fails sample_world (?ccfg\<lparr>idx := 2\<rparr>)"
    "\<not> first_input_fails ?bad (?ccfg\<lparr>idx := 2\<rparr>)"
    by (simp_all add: first_input_fails_def sample_world_def)
  have "main sample_world args_zero ?av =
          (Exit EXIT_FAILURE,
           if mrb_open_ok sample_world then [] @ [Stderr Output_file_should_be_specified]
           else [Stderr Invalid_mrb_state])"
    using multiple_inputs_need_output [OF parse] by (simp add: args_zero_def)
  then have plain: "main sample_world args_zero ?av =
          (Exit EXIT_FAILURE, [Stderr Output_file_should_be_specified])"
    by (simp add: sample_world_def)
  have "fst (main sample_world args_zero ?cv) =
          (if mrb_open_ok sample_world \<and> \<not> first_input_fails sample_world (?ccfg\<lparr>idx := 2\<rparr>) \<and>
              load_ok sample_world
           then Exit EXIT_SUCCESS else Exit EXIT_FAILURE)"
    using multiple_inputs_need_output [OF cparse] by (simp add: args_zero_def)
  then have good: "fst (main sample_world args_zero ?cv) = Exit EXIT_SUCCESS"
    using opens(1) by (simp add: sample_world_def)
  have "fst (main ?bad args_zero ?cv) =
          (if mrb_open_ok ?bad \<and> \<not> first_input_fails ?bad (?ccfg\<lparr>idx := 2\<rparr>) \<and> load_ok ?bad
           then Exit EXIT_SUCCESS else Exit EXIT_FAILURE)"
    using multiple_inputs_need_output [OF cparse'] by (simp add: args_zero_def)
  then have bad: "fst (main ?bad args_zero ?cv) = Exit EXIT_FAILURE"
    by simp
  show ?thesis
    using parse plain cparse good bad by simp
qed

text \<open>
  The claim as stated fails with \<open>-c\<close>: \<open>mrbc -c a.rb b.rb\<close> has two inputs and no
  \<open>-o\<close>, and exits with success.
\<close>

theorem multiple_inputs_counterexample:
  "parse_args (mrb_read_int sample_world) [''mrbc'', ''-c'', ''a.rb'', ''b.rb''] args_zero =
     Return 2
       (args_zero\<lparr>argc := 4, argv := [''mrbc'', ''-c'', ''a.rb'', ''b.rb''],
                  prog := Some ''mrbc'', check_syntax := True\<rparr>) [] \<and>
   main sample_world args_zero [''mrbc'', ''-c'', ''a.rb'', ''b.rb''] =
     (Exit EXIT_SUCCESS,
      [Fopen_read ''a.rb'' True, Fclose_in (In_file ''a.rb''), Fopen_read ''b.rb'' True,
       Fclose_in (In_file ''b.rb''), Syntax_OK ''a.rb''])"
  by code_simp




text \<open>
  A whole run that reaches that rejection needs \<open>-o\<close>, and with \<open>-o\<close> the local
  \<open>outfilename\<close> is never assigned: the file that is opened before the rejection is
  whatever the unassigned variable names. In a world where it names \<open>junk\<close>:
\<close>

lemma static_with_o_run:
  "main (sample_world\<lparr>unassigned_outfilename := Some (Ptr (Heap_block 9) 0, ''junk'')\<rparr>) args_zero
     [''mrbc'', ''-s'', ''-oout.mrb'', ''a.rb''] =
   (Exit EXIT_FAILURE,
    [Fopen_read ''a.rb'' True, Fclose_in (In_file ''a.rb''), Fopen_write ''junk'' True,
     Stderr Option_s_requires_B, Fclose_out (Out_file ''junk'')])"
  by code_simp

text \<open>
  In the same world the run of \<open>mrbc -Bsym -H -oout.c in.rb\<close> goes through the primary
  dump, with line width 0 handed to the C-variable codec, and then fails in the header
  dump after opening \<open>out.h\<close>, without a second call of \<open>dump_file\<close>.
\<close>

lemma header_run_with_o:
  "main (sample_world\<lparr>unassigned_outfilename := Some (Ptr (Heap_block 9) 0, ''junk'')\<rparr>) args_zero
     [''mrbc'', ''-Bsym'', ''-H'', ''-oout.c'', ''in.rb''] =
   (Exit EXIT_FAILURE,
    [Fopen_read ''in.rb'' True, Fclose_in (In_file ''in.rb''), Fopen_write ''junk'' True,
     Codec (Dump_cvar {MRB_DUMP_HEADER} (Out_file ''junk'') ''sym'' 0),
     Fclose_out (Out_file ''junk''), Fopen_write ''out.h'' True, Stderr Output_file_is_required])"
  by code_simp

end
